theory Spec2Isabelle
  imports Complex_Main "HOL-Library.AList" "HOL-Library.Sublist"
begin

section \<open>Segmentation commands module\<close>

text \<open>
  A shallow embedding of the actions of \<^verbatim>\<open>commandsModule\<close>
  (\<^verbatim>\<open>src/unnamed/part_000\<close>). The services and libraries the module calls
  (segmentation registry, image cache, adapters, data sources, dialog prompt, DOM) are
  fields of one record of services; each action takes that record and returns the
  ordered list of effects it performed on the outside world together with its result.
  A thrown exception, and a rejected promise of an awaited call, is the left injection
  of the result.
\<close>

subsection \<open>Errors\<close>

datatype js_error = TypeError | Error string

subsection \<open>JavaScript Set, in insertion order\<close>

text \<open>
  \<^verbatim>\<open>new Set()\<close> followed by \<^verbatim>\<open>Array.from\<close> yields the elements in the
  order of their first insertion. The set is the list of its elements in that order;
  \<^verbatim>\<open>add\<close> leaves a set that already holds the value as it is.
\<close>

definition set_add :: "'a list \<Rightarrow> 'a \<Rightarrow> 'a list" where
  "set_add s v = (if v \<in> set s then s else s @ [v])"

text \<open>\<^verbatim>\<open>new Set(xs)\<close>: the elements of an array added one after the other.\<close>

fun set_from :: "'a list \<Rightarrow> 'a list \<Rightarrow> 'a list" where
  "set_from s [] = s"
| "set_from s (v # vs) = set_from (set_add s v) vs"

subsection \<open>Images and label maps\<close>

record image =
  pixelData :: "int list"
  rows :: nat
  columns :: nat
  referencedImageId :: string

record labelmap2D =
  slice_segmentsOnLabelmap :: "int list"
  slice_pixelData :: "int list"
  slice_rows :: nat
  slice_columns :: nat

text \<open>
  The inner loop of \<^verbatim>\<open>generateSegmentation\<close> (lines 139 to 144): one step for
  each index of the pixel buffer, from the first to the last, adding the value to the
  set when it is not zero.
\<close>

fun scanPixels :: "int list \<Rightarrow> int list \<Rightarrow> int list" where
  "scanPixels s [] = s"
| "scanPixels s (segment # rest) =
     scanPixels (if segment \<noteq> 0 then set_add s segment else s) rest"

text \<open>The body of the outer loop (lines 134 to 151): the entry recorded for one slice.\<close>

definition sliceLabelmap :: "image \<Rightarrow> labelmap2D" where
  "sliceLabelmap segImage =
     \<lparr> slice_segmentsOnLabelmap = scanPixels [] (pixelData segImage),
       slice_pixelData = pixelData segImage,
       slice_rows = rows segImage,
       slice_columns = columns segImage \<rparr>"

text \<open>The outer loop (lines 133 to 152): \<^verbatim>\<open>labelmaps2D[z++]\<close> appends.\<close>

fun sliceLoop :: "labelmap2D list \<Rightarrow> image list \<Rightarrow> labelmap2D list" where
  "sliceLoop acc [] = acc"
| "sliceLoop acc (segImage # rest) = sliceLoop (acc @ [sliceLabelmap segImage]) rest"

text \<open>
  Lines 154 to 157: the per-slice arrays, flattened, through a Set, back to an array.
\<close>

definition volumeSegments :: "labelmap2D list \<Rightarrow> int list" where
  "volumeSegments labelmaps2D =
     set_from [] (concat (map slice_segmentsOnLabelmap labelmaps2D))"

subsection \<open>Segmentations, segments and their metadata\<close>

text \<open>
  An entry of the cornerstone tools segmentation state. Only
  \<^verbatim>\<open>representationData.Labelmap.imageIds\<close> is read; \<open>None\<close> stands for any of
  \<^verbatim>\<open>representationData\<close>, \<^verbatim>\<open>Labelmap\<close> or \<^verbatim>\<open>imageIds\<close> being
  undefined.
\<close>

record cst_segmentation =
  labelmap_imageIds :: "string list option"

record segment =
  segmentIndex :: nat
  segment_label :: string
  algorithmType :: "string option"
  algorithmName :: "string option"

text \<open>
  An entry of the segmentation service. \<^verbatim>\<open>segments\<close> is an object; its entries
  are listed in the order \<^verbatim>\<open>Object.entries\<close> yields them, each key a string, a
  missing (falsy) segment \<open>None\<close>.
\<close>

record ohif_segmentation =
  label :: "string option"
  segments :: "(string \<times> segment option) list"

record representation =
  rep_viewportId :: string

record codeSequence =
  CodeValue :: string
  CodingSchemeDesignator :: string
  CodeMeaning :: string

record segmentMetadata =
  SegmentNumber :: string
  SegmentLabel :: string
  SegmentAlgorithmType :: string
  SegmentAlgorithmName :: string
  RecommendedDisplayCIELabValue :: "int list"
  SegmentedPropertyCategoryCodeSequence :: codeSequence
  SegmentedPropertyTypeCodeSequence :: codeSequence

text \<open>
  \<^verbatim>\<open>labelmap3D.metadata\<close> is an array written at the keys of the segments; it is
  the association of those keys to the entries written, read with \<^const>\<open>map_of\<close>.
\<close>

record labelmap3D =
  segmentsOnLabelmap :: "int list"
  metadata :: "(string \<times> segmentMetadata) list"
  labelmaps2D :: "labelmap2D list"

record options =
  SeriesDescription :: "string option"

record dicom_dataset =
  ds_content :: string
  wadoRoot :: "string option"

record segment_info =
  info_SegmentNumber :: string
  info_SegmentLabel :: string

text \<open>What the segmentation adapter returns: an object read at \<^verbatim>\<open>dataset\<close> and at
  \<^verbatim>\<open>metadata\<close>, either of which may be undefined.\<close>

record generated =
  dataset :: "dicom_dataset option"
  gen_metadata :: "segment_info list option"

subsection \<open>Data sources, prompt, canvas and PDF document\<close>

record data_source =
  store_dicom :: "dicom_dataset \<Rightarrow> js_error + unit"
  config_wadoRoot :: "string option"

record prompt_response =
  prompt_value :: "string option"
  dataSourceName :: "string option"
  action :: int

text \<open>The canvas of the capture: its size, and what \<^verbatim>\<open>toDataURL('image/png')\<close> gives
  or throws.\<close>

record canvas =
  width :: int
  height :: int
  toDataURL :: "js_error + string"

datatype draw_op =
    DrawImage string int int int int
  | DrawRectangle int int int int "nat \<times> nat \<times> nat" rat
  | DrawText string int int nat "nat \<times> nat \<times> nat" nat

record pdf_page =
  page_width :: int
  page_height :: int
  page_ops :: "draw_op list"

type_synonym pdf_document = "pdf_page list"

text \<open>
  The calls of the PDF library, and of the DOM, that \<^verbatim>\<open>downloadSegmentationPdf\<close>
  makes between lines 301 and 361. \<open>PdfDraw\<close> is \<^verbatim>\<open>drawImage\<close>,
  \<^verbatim>\<open>drawRectangle\<close> or \<^verbatim>\<open>drawText\<close> with what is drawn; \<open>PdfSave\<close> carries
  the document saved.
\<close>

datatype pdf_call =
    PDFDocument_create
  | PdfAddPage int int
  | PdfEmbedPng string
  | PdfDraw draw_op
  | PdfSave pdf_document

datatype dom_call =
    NewBlob
  | CreateObjectURL
  | CreateElement
  | AppendChild
  | LinkClick
  | RemoveChild
  | SetTimeout

subsection \<open>Effects on the outside world\<close>

datatype effect =
    ConsoleError string js_error
  | ConsoleWarn js_error
  | ConsoleDebug string js_error
  | AdapterGenerateSegmentation "image option list" labelmap3D options
  | AdapterGenerateRTSS "ohif_segmentation option"
  | DownloadDICOMData "dicom_dataset option" string
  | DownloadLink string pdf_document
  | RevokeObjectURLAfter nat
  | LocationAssign string
  | ReportDialogPrompt string
  | StoreDicom dicom_dataset
  | AddInstances "dicom_dataset list" bool
  | SetBrushSizeForToolGroup string real "string option"
  | SetToolConfiguration string string "real \<times> real"

text \<open>An action returns what it did, in order, and its value or the error it threw.\<close>

type_synonym 'a outcome = "effect list \<times> (js_error + 'a)"

subsection \<open>The services and libraries the module calls\<close>

text \<open>
  Each field is one call of the source, with the arguments the module passes and with
  \<open>None\<close> for \<^verbatim>\<open>undefined\<close>. \<open>CREATE_REPORT\<close> is the constant
  \<^verbatim>\<open>PROMPT_RESPONSES.CREATE_REPORT\<close>, whose table is not part of the module.
  \<open>querySelector_viewport\<close> is \<^verbatim>\<open>document.querySelector\<close> on the selector of
  line 276, as a function of the viewport uid in it. \<open>getSegmentColor\<close> gives the
  components of the colour, JavaScript numbers being real numbers here. \<open>pdf_lib\<close>
  and \<open>dom_api\<close> tell, for each call of the PDF library and of the DOM, whether it
  returns or throws.
\<close>

record services =
  cst_getSegmentation :: "string \<Rightarrow> cst_segmentation option"
  cache_getImage :: "string \<Rightarrow> image option"
  getSegmentation :: "string \<Rightarrow> ohif_segmentation option"
  getRepresentationsForSegmentation :: "string \<Rightarrow> representation list"
  getSegmentColor :: "string \<Rightarrow> string \<Rightarrow> nat \<Rightarrow> real list option"
  rgb2DICOMLAB :: "real list \<Rightarrow> real list"
  adaptersSEG_generateSegmentation ::
    "image option list \<Rightarrow> labelmap3D \<Rightarrow> options \<Rightarrow> js_error + generated option"
  generateRTSSFromSegmentations :: "ohif_segmentation option \<Rightarrow> js_error + string"
  datasetToBlob :: "string \<Rightarrow> js_error + string"
  location_assign :: "string \<Rightarrow> js_error + unit"
  getActiveViewportId :: "string option"
  querySelector_viewport :: "string \<Rightarrow> string option"
  html2canvas :: "string \<Rightarrow> js_error + canvas"
  createReportDialogPrompt :: "js_error + prompt_response"
  CREATE_REPORT :: int
  getDataSources :: "string \<Rightarrow> data_source list"
  getActiveDataSource :: "data_source option"
  getToolGroupIds :: "string list option"
  getToolGroup :: "string \<Rightarrow> string option"
  downloadDICOMData :: "dicom_dataset option \<Rightarrow> string \<Rightarrow> js_error + unit"
  pdf_lib :: "pdf_call \<Rightarrow> js_error + unit"
  dom_api :: "dom_call \<Rightarrow> js_error + unit"

subsection \<open>JavaScript operators on strings and numbers\<close>

text \<open>\<^verbatim>\<open>a || d\<close> on a string that may be undefined: undefined and the empty string
  are falsy.\<close>

definition js_or :: "string option \<Rightarrow> string \<Rightarrow> string" where
  "js_or a d = (case a of None \<Rightarrow> d | Some s \<Rightarrow> if s = [] then d else s)"

definition js_or_opt :: "string option \<Rightarrow> string option \<Rightarrow> string option" where
  "js_or_opt a b = (case a of None \<Rightarrow> b | Some s \<Rightarrow> if s = [] then b else Some s)"

text \<open>A template literal around a string that may be undefined.\<close>

definition template :: "string option \<Rightarrow> string" where
  "template a = (case a of None \<Rightarrow> ''undefined'' | Some s \<Rightarrow> s)"

text \<open>\<^verbatim>\<open>Math.round\<close>: the nearest integer, a half rounded up.\<close>

definition Math_round :: "real \<Rightarrow> int" where
  "Math_round x = \<lfloor>x + 1 / 2\<rfloor>"

text \<open>A length in a template literal: its decimal digits.\<close>

fun string_of_nat :: "nat \<Rightarrow> string" where
  "string_of_nat n =
     (if n < 10 then [''0123456789'' ! n]
      else string_of_nat (n div 10) @ [''0123456789'' ! (n mod 10)])"

text \<open>\<^verbatim>\<open>lines.join('\n')\<close>.\<close>

fun join_lines :: "string list \<Rightarrow> string" where
  "join_lines [] = []"
| "join_lines [l] = l"
| "join_lines (l # m # ls) = l @ [CHR 0x0A] @ join_lines (m # ls)"

subsection \<open>generateSegmentation\<close>

definition tissueCode :: codeSequence where
  "tissueCode =
     \<lparr> CodeValue = ''T-D0050'', CodingSchemeDesignator = ''SRT'', CodeMeaning = ''Tissue'' \<rparr>"

text \<open>Lines 180 to 200: the entry built for one segment, given its key and colour.\<close>

definition segmentMetadataOf :: "services \<Rightarrow> string \<Rightarrow> segment \<Rightarrow> real list \<Rightarrow> segmentMetadata" where
  "segmentMetadataOf env key seg color =
     \<lparr> SegmentNumber = key,
       SegmentLabel = segment_label seg,
       SegmentAlgorithmType = js_or (algorithmType seg) ''MANUAL'',
       SegmentAlgorithmName = js_or (algorithmName seg) ''OHIF Brush'',
       RecommendedDisplayCIELabValue =
         map Math_round (rgb2DICOMLAB env (map (\<lambda>value. value / 255) (take 3 color))),
       SegmentedPropertyCategoryCodeSequence = tissueCode,
       SegmentedPropertyTypeCodeSequence = tissueCode \<rparr>"

text \<open>
  Lines 165 to 202: \<^verbatim>\<open>forEach\<close> over the entries of \<^verbatim>\<open>segments\<close>. A falsy
  segment is skipped. Reading \<^verbatim>\<open>viewportId\<close> of a missing first representation,
  and slicing a missing colour, throw a TypeError that ends the loop.
\<close>

fun attachMetadata ::
  "services \<Rightarrow> string \<Rightarrow> representation list \<Rightarrow> (string \<times> segment option) list \<Rightarrow>
   (string \<times> segmentMetadata) list \<Rightarrow> js_error + (string \<times> segmentMetadata) list" where
  "attachMetadata env segmentationId reps [] md = Inr md"
| "attachMetadata env segmentationId reps ((key, None) # es) md =
     attachMetadata env segmentationId reps es md"
| "attachMetadata env segmentationId reps ((key, Some seg) # es) md =
     (case reps of
        [] \<Rightarrow> Inl TypeError
      | firstRepresentation # _ \<Rightarrow>
          (case getSegmentColor env (rep_viewportId firstRepresentation) segmentationId
                  (segmentIndex seg) of
             None \<Rightarrow> Inl TypeError
           | Some color \<Rightarrow>
               attachMetadata env segmentationId reps es
                 (AList.update key (segmentMetadataOf env key seg color) md)))"

text \<open>
  Lines 122 to 202: everything \<^verbatim>\<open>generateSegmentation\<close> does before it calls the
  adapter. The result is the pair of arguments handed to the adapter: the referenced
  images and \<^verbatim>\<open>labelmap3D\<close>. A missing segmentation, missing image ids, a
  segmentation image absent from the cache and a segmentation unknown to the
  segmentation service each make a property read on undefined: a TypeError.
\<close>

definition buildLabelmap3D :: "services \<Rightarrow> string \<Rightarrow> js_error + (image option list \<times> labelmap3D)" where
  "buildLabelmap3D env segmentationId =
     (case cst_getSegmentation env segmentationId of
        None \<Rightarrow> Inl TypeError
      | Some segmentation \<Rightarrow>
     (case labelmap_imageIds segmentation of
        None \<Rightarrow> Inl TypeError
      | Some imageIds \<Rightarrow>
     (case those (map (cache_getImage env) imageIds) of
        None \<Rightarrow> Inl TypeError
      | Some segImages \<Rightarrow>
     (let referencedImages = map (\<lambda>image. cache_getImage env (referencedImageId image)) segImages;
          lms = sliceLoop [] segImages
      in
     (case getSegmentation env segmentationId of
        None \<Rightarrow> Inl TypeError
      | Some segmentationInOHIF \<Rightarrow>
     (case attachMetadata env segmentationId
             (getRepresentationsForSegmentation env segmentationId)
             (segments segmentationInOHIF) [] of
        Inl e \<Rightarrow> Inl e
      | Inr md \<Rightarrow>
          Inr (referencedImages,
               \<lparr> segmentsOnLabelmap = volumeSegments lms,
                 metadata = md,
                 labelmaps2D = lms \<rparr>)))))))"

text \<open>Lines 204 to 211: the adapter is called and its result returned as it is.\<close>

definition generateSegmentation :: "services \<Rightarrow> string \<Rightarrow> options \<Rightarrow> generated option outcome" where
  "generateSegmentation env segmentationId opts =
     (case buildLabelmap3D env segmentationId of
        Inl e \<Rightarrow> ([], Inl e)
      | Inr (referencedImages, lm) \<Rightarrow>
          ([AdapterGenerateSegmentation referencedImages lm opts],
           adaptersSEG_generateSegmentation env referencedImages lm opts))"

definition default_options :: options where
  "default_options = \<lparr> SeriesDescription = None \<rparr>"

subsection \<open>downloadSegmentation\<close>

text \<open>
  Lines 223 to 230. The arguments of \<^verbatim>\<open>downloadDICOMData\<close> are evaluated from the
  left: \<^verbatim>\<open>dataset\<close> of the generated value, then the label of the segmentation.
  The helper may throw; the download is an effect when it returns.
\<close>

definition downloadSegmentation :: "services \<Rightarrow> string \<Rightarrow> unit outcome" where
  "downloadSegmentation env segmentationId =
     (let segmentationInOHIF = getSegmentation env segmentationId in
      case generateSegmentation env segmentationId default_options of
        (t, Inl e) \<Rightarrow> (t, Inl e)
      | (t, Inr None) \<Rightarrow> (t, Inl TypeError)
      | (t, Inr (Some generatedSegmentation)) \<Rightarrow>
          (case segmentationInOHIF of
             None \<Rightarrow> (t, Inl TypeError)
           | Some s \<Rightarrow>
               (case downloadDICOMData env (dataset generatedSegmentation) (template (label s)) of
                  Inl e \<Rightarrow> (t, Inl e)
                | Inr _ \<Rightarrow>
                    (t @ [DownloadDICOMData (dataset generatedSegmentation) (template (label s))],
                     Inr ()))))"

subsection \<open>downloadSegmentationPdf\<close>

text \<open>
  The PDF library builds the document in memory: the document is the value built, a
  list of pages with what was drawn on each, and it reaches the outside world when the
  link is clicked. Every call of the library and of the DOM may throw. The calls are
  made in the order of the source, and the first that throws ends the body of the
  \<^verbatim>\<open>try\<close>.
\<close>

fun run_calls :: "('c \<Rightarrow> js_error + unit) \<Rightarrow> 'c list \<Rightarrow> js_error + unit" where
  "run_calls f [] = Inr ()"
| "run_calls f (c # cs) = (case f c of Inl e \<Rightarrow> Inl e | Inr _ \<Rightarrow> run_calls f cs)"

definition segmentInfo :: "segment_info list \<Rightarrow> string" where
  "segmentInfo md =
     (if length md > 0
      then join_lines (map (\<lambda>segment. ''- Segment '' @ info_SegmentNumber segment @ '': ''
                                       @ info_SegmentLabel segment) md)
      else ''No segment metadata available'')"

definition textContent :: "ohif_segmentation \<Rightarrow> segment_info list \<Rightarrow> string" where
  "textContent segmentationInOHIF md =
     join_lines
       [''Segmentation: '' @ js_or (label segmentationInOHIF) ''Unnamed Segmentation'',
        ''Segments: '' @ string_of_nat (length md),
        segmentInfo md]"

text \<open>What is drawn on the page: the image (lines 306 to 311), the rectangle behind the
  text (lines 329 to 338), the text (lines 340 to 346).\<close>

definition pageImage :: "string \<Rightarrow> canvas \<Rightarrow> draw_op" where
  "pageImage pngImage cv = DrawImage pngImage 0 0 (width cv) (height cv)"

definition pageRectangle :: "canvas \<Rightarrow> segment_info list \<Rightarrow> draw_op" where
  "pageRectangle cv md =
     (let textHeight = 20 + int (length md) * 15 in
      DrawRectangle 30 (height cv - textHeight - 30) 400 (textHeight + 20) (0, 0, 0) (7 / 10))"

definition pageText :: "canvas \<Rightarrow> ohif_segmentation \<Rightarrow> segment_info list \<Rightarrow> draw_op" where
  "pageText cv segmentationInOHIF md =
     DrawText (textContent segmentationInOHIF md) 50 (height cv - 50) 12 (1, 1, 1) 15"

text \<open>The document when all is drawn: one page of the size of the canvas.\<close>

definition pdfDocument ::
  "string \<Rightarrow> canvas \<Rightarrow> ohif_segmentation \<Rightarrow> segment_info list \<Rightarrow> pdf_document" where
  "pdfDocument pngImage cv segmentationInOHIF md =
     [\<lparr> page_width = width cv,
        page_height = height cv,
        page_ops =
          [pageImage pngImage cv, pageRectangle cv md, pageText cv segmentationInOHIF md] \<rparr>]"

text \<open>The calls of the PDF library, in order: lines 301 and 302; lines 305 and 306; lines
  331, 340 and 349.\<close>

definition pdfPageCalls :: "canvas \<Rightarrow> pdf_call list" where
  "pdfPageCalls cv = [PDFDocument_create, PdfAddPage (width cv) (height cv)]"

definition pdfImageCalls :: "string \<Rightarrow> canvas \<Rightarrow> pdf_call list" where
  "pdfImageCalls pngImage cv = [PdfEmbedPng pngImage, PdfDraw (pageImage pngImage cv)]"

definition pdfTextCalls ::
  "string \<Rightarrow> canvas \<Rightarrow> ohif_segmentation \<Rightarrow> segment_info list \<Rightarrow> pdf_call list" where
  "pdfTextCalls pngImage cv segmentationInOHIF md =
     [PdfDraw (pageRectangle cv md), PdfDraw (pageText cv segmentationInOHIF md),
      PdfSave (pdfDocument pngImage cv segmentationInOHIF md)]"

text \<open>
  Step 4 (lines 287 to 298): a generation that throws is logged and replaced by an object
  with an empty metadata list.
\<close>

definition pdfGenerate :: "generated option outcome \<Rightarrow> effect list \<times> generated option" where
  "pdfGenerate g =
     (case g of
        (t, Inl e) \<Rightarrow>
          (t @ [ConsoleError ''Error generating segmentation:'' e],
           Some \<lparr> dataset = None, gen_metadata = Some [] \<rparr>)
      | (t, Inr generatedSegmentation) \<Rightarrow> (t, generatedSegmentation))"

text \<open>Line 314: the metadata of the generated value, the empty list when it has none.\<close>

definition metadataOf :: "generated \<Rightarrow> segment_info list" where
  "metadataOf generatedSegmentation =
     (case gen_metadata generatedSegmentation of None \<Rightarrow> [] | Some m \<Rightarrow> m)"

text \<open>
  Step 5 and the first line of step 6 (lines 301 to 349). The destructuring of line 314
  throws on a generated value that is undefined; it comes after the image is drawn.
\<close>

definition pdfAssemble ::
  "services \<Rightarrow> canvas \<Rightarrow> ohif_segmentation \<Rightarrow> generated option \<Rightarrow> js_error + pdf_document" where
  "pdfAssemble env cv segmentationInOHIF g =
     (case run_calls (pdf_lib env) (pdfPageCalls cv) of
        Inl e \<Rightarrow> Inl e
      | Inr _ \<Rightarrow>
     (case toDataURL cv of
        Inl e \<Rightarrow> Inl e
      | Inr pngImage \<Rightarrow>
     (case run_calls (pdf_lib env) (pdfImageCalls pngImage cv) of
        Inl e \<Rightarrow> Inl e
      | Inr _ \<Rightarrow>
     (case g of
        None \<Rightarrow> Inl TypeError
      | Some generatedSegmentation \<Rightarrow>
     (let md = metadataOf generatedSegmentation in
      case run_calls (pdf_lib env) (pdfTextCalls pngImage cv segmentationInOHIF md) of
        Inl e \<Rightarrow> Inl e
      | Inr _ \<Rightarrow> Inr (pdfDocument pngImage cv segmentationInOHIF md))))))"

text \<open>
  The rest of step 6 (lines 350 to 361): the blob, its URL, the link, the click, the
  removal of the link, the timer that revokes the URL. The download is an effect once
  the click has returned, the revocation once the timer is set.
\<close>

definition linkDownload :: "services \<Rightarrow> string \<Rightarrow> pdf_document \<Rightarrow> unit outcome" where
  "linkDownload env download doc =
     (case run_calls (dom_api env) [NewBlob, CreateObjectURL, CreateElement, AppendChild, LinkClick] of
        Inl e \<Rightarrow> ([], Inl e)
      | Inr _ \<Rightarrow>
     (case dom_api env RemoveChild of
        Inl e \<Rightarrow> ([DownloadLink download doc], Inl e)
      | Inr _ \<Rightarrow>
     (case dom_api env SetTimeout of
        Inl e \<Rightarrow> ([DownloadLink download doc], Inl e)
      | Inr _ \<Rightarrow> ([DownloadLink download doc, RevokeObjectURLAfter 100], Inr ()))))"

text \<open>All the calls of the DOM of lines 350 to 361, in order.\<close>

definition linkCalls :: "dom_call list" where
  "linkCalls =
     [NewBlob, CreateObjectURL, CreateElement, AppendChild, LinkClick, RemoveChild, SetTimeout]"

text \<open>
  Lines 262 to 271: the check on the entry of the cornerstone tools state. It passes when
  the entry exists and has \<^verbatim>\<open>imageIds\<close> (an empty array is truthy).
\<close>

definition hasLabelmapImageIds :: "services \<Rightarrow> string \<Rightarrow> bool" where
  "hasLabelmapImageIds env segmentationId =
     (case cst_getSegmentation env segmentationId of
        None \<Rightarrow> False
      | Some segmentation \<Rightarrow> labelmap_imageIds segmentation \<noteq> None)"

text \<open>
  Lines 274 to 277: the element of the viewport asked for or, when none is asked for
  (null, or the empty string), of the active viewport.
\<close>

definition targetViewportElement :: "services \<Rightarrow> string option \<Rightarrow> string option" where
  "targetViewportElement env viewportId =
     (let targetViewportId = js_or_opt viewportId (getActiveViewportId env) in
      querySelector_viewport env (template targetViewportId))"

text \<open>The body of the outer \<^verbatim>\<open>try\<close> (lines 255 to 361).\<close>

definition downloadSegmentationPdf_try :: "services \<Rightarrow> string \<Rightarrow> string option \<Rightarrow> unit outcome" where
  "downloadSegmentationPdf_try env segmentationId viewportId =
     (case getSegmentation env segmentationId of
        None \<Rightarrow> ([], Inl (Error ''Segmentation not found''))
      | Some segmentationInOHIF \<Rightarrow>
     (if \<not> hasLabelmapImageIds env segmentationId
      then ([ConsoleError ''Error getting segmentation:'' (Error ''Invalid segmentation data'')],
            Inl (Error ''Failed to load segmentation data''))
      else
     (case targetViewportElement env viewportId of
        None \<Rightarrow> ([], Inl (Error ''Viewport element not found''))
      | Some viewportElement \<Rightarrow>
     (case html2canvas env viewportElement of
        Inl e \<Rightarrow> ([], Inl e)
      | Inr cv \<Rightarrow>
     (case pdfGenerate (generateSegmentation env segmentationId default_options) of
        (t, generatedSegmentation) \<Rightarrow>
     (case pdfAssemble env cv segmentationInOHIF generatedSegmentation of
        Inl e \<Rightarrow> (t, Inl e)
      | Inr doc \<Rightarrow>
     (case linkDownload env (js_or (label segmentationInOHIF) ''segmentation'' @ ''.pdf'') doc of
        (t', r) \<Rightarrow> (t @ t', r))))))))"

text \<open>The outer \<^verbatim>\<open>catch\<close> (lines 362 to 369): log, throw again.\<close>

definition downloadSegmentationPdf :: "services \<Rightarrow> string \<Rightarrow> string option \<Rightarrow> unit outcome" where
  "downloadSegmentationPdf env segmentationId viewportId =
     (case downloadSegmentationPdf_try env segmentationId viewportId of
        (t, Inl e) \<Rightarrow> (t @ [ConsoleError ''Error generating segmentation PDF:'' e], Inl e)
      | (t, Inr u) \<Rightarrow> (t, Inr u))"

subsection \<open>storeSegmentation\<close>

text \<open>
  Lines 405 to 407: the first data source of the name chosen in the dialog when a name
  was chosen (not undefined, not empty), the default data source otherwise. The first
  element of an empty array is undefined.
\<close>

definition selectedDataSourceConfig ::
  "services \<Rightarrow> data_source option \<Rightarrow> prompt_response \<Rightarrow> data_source option" where
  "selectedDataSourceConfig env dflt response =
     (case dataSourceName response of
        None \<Rightarrow> dflt
      | Some selectedDataSource \<Rightarrow>
          (if selectedDataSource = [] then dflt
           else (case getDataSources env selectedDataSource of
                   [] \<Rightarrow> None
                 | d # _ \<Rightarrow> Some d)))"

text \<open>Line 391: \<^verbatim>\<open>dataSource ?? extensionManager.getActiveDataSource()\<close>.\<close>

definition defaultDataSource :: "services \<Rightarrow> data_source option \<Rightarrow> data_source option" where
  "defaultDataSource env dataSource =
     (case dataSource of Some d \<Rightarrow> Some d | None \<Rightarrow> getActiveDataSource env)"

text \<open>Line 412: \<^verbatim>\<open>reportName || label || 'Research Derived Series'\<close>.\<close>

definition storeOptions :: "ohif_segmentation \<Rightarrow> prompt_response \<Rightarrow> options" where
  "storeOptions segmentation response =
     \<lparr> SeriesDescription =
         Some (js_or (prompt_value response)
                (js_or (label segmentation) ''Research Derived Series'')) \<rparr>"

text \<open>The body of the \<^verbatim>\<open>try\<close> of lines 404 to 429.\<close>

definition storeSegmentation_try ::
  "services \<Rightarrow> string \<Rightarrow> ohif_segmentation \<Rightarrow> data_source option \<Rightarrow> prompt_response \<Rightarrow>
   dicom_dataset outcome" where
  "storeSegmentation_try env segmentationId segmentation dflt response =
     (case generateSegmentation env segmentationId (storeOptions segmentation response) of
        (t, Inl e) \<Rightarrow> (t, Inl e)
      | (t, Inr None) \<Rightarrow> (t, Inl (Error ''Error during segmentation generation''))
      | (t, Inr (Some generatedData)) \<Rightarrow>
     (case dataset generatedData of
        None \<Rightarrow> (t, Inl (Error ''Error during segmentation generation''))
      | Some naturalizedReport \<Rightarrow>
     (case selectedDataSourceConfig env dflt response of
        None \<Rightarrow> (t, Inl TypeError)
      | Some d \<Rightarrow>
     (case store_dicom d naturalizedReport of
        Inl e \<Rightarrow> (t @ [StoreDicom naturalizedReport], Inl e)
      | Inr _ \<Rightarrow>
          (let stored = naturalizedReport\<lparr> wadoRoot := config_wadoRoot d \<rparr> in
           (t @ [StoreDicom naturalizedReport, AddInstances [stored] True], Inr stored))))))"

text \<open>
  Lines 383 to 435. The value is \<open>None\<close> when the function ends without a
  \<^verbatim>\<open>return\<close>. The \<^verbatim>\<open>catch\<close> logs at debug level and throws again.
\<close>

definition storeSegmentation ::
  "services \<Rightarrow> string \<Rightarrow> data_source option \<Rightarrow> dicom_dataset option outcome" where
  "storeSegmentation env segmentationId dataSource =
     (case getSegmentation env segmentationId of
        None \<Rightarrow> ([], Inl (Error ''No segmentation found''))
      | Some segmentation \<Rightarrow>
     (case createReportDialogPrompt env of
        Inl e \<Rightarrow> ([ReportDialogPrompt ''Store Segmentation''], Inl e)
      | Inr response \<Rightarrow>
          (if action response = CREATE_REPORT env
           then (case storeSegmentation_try env segmentationId segmentation
                        (defaultDataSource env dataSource) response of
                   (t, Inl e) \<Rightarrow>
                     (ReportDialogPrompt ''Store Segmentation'' # t
                        @ [ConsoleDebug ''Error storing segmentation:'' e],
                      Inl e)
                 | (t, Inr naturalizedReport) \<Rightarrow>
                     (ReportDialogPrompt ''Store Segmentation'' # t, Inr (Some naturalizedReport)))
           else ([ReportDialogPrompt ''Store Segmentation''], Inr None))))"

subsection \<open>downloadRTSS\<close>

text \<open>
  Lines 443 to 469. The adapter is called outside the \<^verbatim>\<open>try\<close>; serialising and
  navigating are inside it. The object URL of a blob is the blob.
\<close>

definition downloadRTSS :: "services \<Rightarrow> string \<Rightarrow> unit outcome" where
  "downloadRTSS env segmentationId =
     (let segmentations = getSegmentation env segmentationId in
      case generateRTSSFromSegmentations env segmentations of
        Inl e \<Rightarrow> ([AdapterGenerateRTSS segmentations], Inl e)
      | Inr RTSS \<Rightarrow>
     (case datasetToBlob env RTSS of
        Inl e \<Rightarrow> ([AdapterGenerateRTSS segmentations, ConsoleWarn e], Inr ())
      | Inr reportBlob \<Rightarrow>
     (case location_assign env reportBlob of
        Inl e \<Rightarrow> ([AdapterGenerateRTSS segmentations, ConsoleWarn e], Inr ())
      | Inr _ \<Rightarrow> ([AdapterGenerateRTSS segmentations, LocationAssign reportBlob], Inr ()))))"

subsection \<open>setBrushSize and setThresholdRange\<close>

text \<open>
  Lines 470 to 482. \<open>toolNames\<close> is \<open>None\<close> when the argument is omitted or undefined.
  A call of the utility without a tool name carries \<open>None\<close>: the utility then sets the
  size for every tool of the group.
\<close>

definition setBrushSize_group :: "real \<Rightarrow> string list option \<Rightarrow> string \<Rightarrow> effect list" where
  "setBrushSize_group brushSize toolNames toolGroupId =
     (if map_option length toolNames = Some 0
      then [SetBrushSizeForToolGroup toolGroupId brushSize None]
      else (case toolNames of
              None \<Rightarrow> []
            | Some names \<Rightarrow>
                map (\<lambda>toolName. SetBrushSizeForToolGroup toolGroupId brushSize (Some toolName))
                  names))"

definition setBrushSize :: "services \<Rightarrow> real \<Rightarrow> string list option \<Rightarrow> unit outcome" where
  "setBrushSize env brushSize toolNames =
     (case getToolGroupIds env of
        None \<Rightarrow> ([], Inr ())
      | Some toolGroupIds \<Rightarrow>
          (concat (map (setBrushSize_group brushSize toolNames) toolGroupIds), Inr ()))"

definition defaultThresholdTools :: "string list" where
  "defaultThresholdTools =
     [''ThresholdCircularBrush'', ''ThresholdSphereBrush'',
      ''ThresholdCircularBrushDynamic'', ''ThresholdSphereBrushDynamic'']"

text \<open>
  The inner \<^verbatim>\<open>forEach\<close> of line 499: \<^verbatim>\<open>toolGroup.setToolConfiguration\<close> on a
  tool group that the service does not know throws at the first tool name.
\<close>

fun thresholdTools ::
  "string option \<Rightarrow> real \<times> real \<Rightarrow> string list \<Rightarrow> effect list \<Rightarrow> effect list \<times> (js_error + unit)" where
  "thresholdTools toolGroup thresholdRange [] acc = (acc, Inr ())"
| "thresholdTools toolGroup thresholdRange (toolName # rest) acc =
     (case toolGroup of
        None \<Rightarrow> (acc, Inl TypeError)
      | Some g \<Rightarrow> thresholdTools toolGroup thresholdRange rest (acc @ [SetToolConfiguration g toolName thresholdRange]))"

text \<open>The loop of lines 497 to 506 over the tool group ids.\<close>

fun thresholdGroups ::
  "services \<Rightarrow> real \<times> real \<Rightarrow> string list \<Rightarrow> string list \<Rightarrow> effect list \<Rightarrow> unit outcome" where
  "thresholdGroups env thresholdRange toolNames [] acc = (acc, Inr ())"
| "thresholdGroups env thresholdRange toolNames (toolGroupId # rest) acc =
     (case thresholdTools (getToolGroup env toolGroupId) thresholdRange toolNames acc of
        (acc', Inl e) \<Rightarrow> (acc', Inl e)
      | (acc', Inr _) \<Rightarrow> thresholdGroups env thresholdRange toolNames rest acc')"

definition setThresholdRange :: "services \<Rightarrow> real \<times> real \<Rightarrow> string list option \<Rightarrow> unit outcome" where
  "setThresholdRange env thresholdRange toolNames =
     (let names = (case toolNames of None \<Rightarrow> defaultThresholdTools | Some ns \<Rightarrow> ns) in
      case getToolGroupIds env of
        None \<Rightarrow> ([], Inr ())
      | Some toolGroupIds \<Rightarrow>
          (if length toolGroupIds = 0 then ([], Inr ())
           else thresholdGroups env thresholdRange names toolGroupIds []))"

subsection \<open>Kinds of effect\<close>

fun is_log :: "effect \<Rightarrow> bool" where
  "is_log (ConsoleError m e) = True"
| "is_log (ConsoleWarn e) = True"
| "is_log (ConsoleDebug m e) = True"
| "is_log x = False"

subsection \<open>An example configuration\<close>

text \<open>
  One segmentation \<open>seg1\<close> of two slices of two by two pixels, with one present
  segment and one missing, shown in viewport \<open>vp1\<close>; one data source \<open>pacs\<close>; two
  tool groups. The examples below change single services of it.
\<close>

definition demo_image1 :: image where
  "demo_image1 = \<lparr> pixelData = [0, 1, 1, 2], rows = 2, columns = 2, referencedImageId = ''ref1'' \<rparr>"

definition demo_image2 :: image where
  "demo_image2 = \<lparr> pixelData = [2, 0, 3, 0], rows = 2, columns = 2, referencedImageId = ''ref2'' \<rparr>"

definition demo_blank :: image where
  "demo_blank = \<lparr> pixelData = [0, 0, 0, 0], rows = 2, columns = 2, referencedImageId = ''ref1'' \<rparr>"

definition demo_segment :: segment where
  "demo_segment =
     \<lparr> segmentIndex = 1, segment_label = ''Lesion'', algorithmType = None,
       algorithmName = Some ''Threshold'' \<rparr>"

definition demo_segmentation :: ohif_segmentation where
  "demo_segmentation =
     \<lparr> label = Some ''Liver'', segments = [(''1'', Some demo_segment), (''2'', None)] \<rparr>"

definition demo_dataset :: dicom_dataset where
  "demo_dataset = \<lparr> ds_content = ''SEG'', wadoRoot = None \<rparr>"

definition demo_data_source :: data_source where
  "demo_data_source =
     \<lparr> store_dicom = (\<lambda>d. Inr ()), config_wadoRoot = Some ''https://pacs.example/wado'' \<rparr>"

text \<open>A canvas of one pixel, with the data URL of a PNG image of one pixel.\<close>

definition demo_png :: string where
  "demo_png =
     ''data:image/png;base64,iVBORw0KGgoAAAANSUhEUgAAAAEAAAABCAYAAAAfFcSJAAAADUlEQVR42mNkYPhfDwAChwGA60e6kgAAAABJRU5ErkJggg==''"

definition demo_canvas :: canvas where
  "demo_canvas = \<lparr> width = 1, height = 1, toDataURL = Inr demo_png \<rparr>"

text \<open>A PDF library that draws any text but one holding the control character U+0001,
  which the standard font cannot encode.\<close>

definition demo_pdf_lib :: "pdf_call \<Rightarrow> js_error + unit" where
  "demo_pdf_lib c =
     (case c of
        PdfDraw (DrawText txt x y sz color lineHeight) \<Rightarrow>
          (if CHR 0x01 \<in> set txt then Inl (Error ''WinAnsi cannot encode'') else Inr ())
      | _ \<Rightarrow> Inr ())"

definition demo_services :: services where
  "demo_services =
     \<lparr> cst_getSegmentation =
         (\<lambda>i. if i = ''seg1'' then Some \<lparr> labelmap_imageIds = Some [''img1'', ''img2''] \<rparr>
              else None),
       cache_getImage =
         (\<lambda>i. if i = ''img1'' then Some demo_image1
              else if i = ''img2'' then Some demo_image2 else None),
       getSegmentation = (\<lambda>i. if i = ''seg1'' then Some demo_segmentation else None),
       getRepresentationsForSegmentation =
         (\<lambda>i. if i = ''seg1'' then [\<lparr> rep_viewportId = ''vp1'' \<rparr>] else []),
       getSegmentColor = (\<lambda>v i n. Some [255, 51, 0, 255]),
       rgb2DICOMLAB = map (\<lambda>x. x * 100),
       adaptersSEG_generateSegmentation =
         (\<lambda>refs lm opts. Inr (Some \<lparr> dataset = Some demo_dataset, gen_metadata = None \<rparr>)),
       generateRTSSFromSegmentations =
         (\<lambda>s. case s of None \<Rightarrow> Inl TypeError | Some _ \<Rightarrow> Inr ''RTSS''),
       datasetToBlob = (\<lambda>d. Inr (''blob:'' @ d)),
       location_assign = (\<lambda>u. Inr ()),
       getActiveViewportId = Some ''vp1'',
       querySelector_viewport = (\<lambda>v. if v = ''vp1'' then Some ''div-vp1'' else None),
       html2canvas = (\<lambda>el. Inr demo_canvas),
       createReportDialogPrompt =
         Inr \<lparr> prompt_value = Some ''My report'', dataSourceName = Some ''pacs'', action = 1 \<rparr>,
       CREATE_REPORT = 1,
       getDataSources = (\<lambda>n. if n = ''pacs'' then [demo_data_source] else []),
       getActiveDataSource = Some demo_data_source,
       getToolGroupIds = Some [''default'', ''mpr''],
       getToolGroup = (\<lambda>g. Some g),
       downloadDICOMData = (\<lambda>d n. case d of None \<Rightarrow> Inl TypeError | Some _ \<Rightarrow> Inr ()),
       pdf_lib = demo_pdf_lib,
       dom_api = (\<lambda>c. Inr ()) \<rparr>"

text \<open>Variations of the example: a cache without the segmentation images (the generation
  then throws), a capture that fails, a storage that fails, an adapter that throws, a dialog that is cancelled, a
  serialisation and a navigation that fail, no tool groups.\<close>

definition demo_uncached_services :: services where
  "demo_uncached_services = demo_services\<lparr> cache_getImage := (\<lambda>i. None) \<rparr>"

text \<open>The same with a segmentation whose label holds the character U+0001.\<close>

definition demo_unencodable_segmentation :: ohif_segmentation where
  "demo_unencodable_segmentation = demo_segmentation\<lparr> label := Some (''Liver'' @ [CHR 0x01]) \<rparr>"

definition demo_unencodable_services :: services where
  "demo_unencodable_services =
     demo_uncached_services\<lparr> getSegmentation := (\<lambda>i. Some demo_unencodable_segmentation) \<rparr>"

text \<open>An RTSS adapter that returns for an undefined segmentation too.\<close>

definition demo_lenient_services :: services where
  "demo_lenient_services =
     demo_services\<lparr> generateRTSSFromSegmentations := (\<lambda>s. Inr ''RTSS'') \<rparr>"

definition demo_nocapture_services :: services where
  "demo_nocapture_services =
     demo_services\<lparr> html2canvas := (\<lambda>el. Inl (Error ''canvas is tainted'')) \<rparr>"





definition demo_cancel_services :: services where
  "demo_cancel_services =
     demo_services\<lparr> createReportDialogPrompt :=
                      Inr \<lparr> prompt_value = None, dataSourceName = None, action = 0 \<rparr> \<rparr>"

definition demo_noblob_services :: services where
  "demo_noblob_services = demo_services\<lparr> datasetToBlob := (\<lambda>d. Inl (Error ''cannot write'')) \<rparr>"

definition demo_nonavigation_services :: services where
  "demo_nonavigation_services =
     demo_services\<lparr> location_assign := (\<lambda>u. Inl (Error ''blocked'')) \<rparr>"

definition demo_nogroups_services :: services where
  "demo_nogroups_services = demo_services\<lparr> getToolGroupIds := Some [] \<rparr>"




definition demo_labelmap3D :: labelmap3D where
  "demo_labelmap3D =
     \<lparr> segmentsOnLabelmap = [1, 2, 3],
       metadata =
         [(''1'',
           \<lparr> SegmentNumber = ''1'', SegmentLabel = ''Lesion'',
             SegmentAlgorithmType = ''MANUAL'', SegmentAlgorithmName = ''Threshold'',
             RecommendedDisplayCIELabValue = [100, 20, 0],
             SegmentedPropertyCategoryCodeSequence = tissueCode,
             SegmentedPropertyTypeCodeSequence = tissueCode \<rparr>)],
       labelmaps2D =
         [\<lparr> slice_segmentsOnLabelmap = [1, 2], slice_pixelData = [0, 1, 1, 2],
            slice_rows = 2, slice_columns = 2 \<rparr>,
          \<lparr> slice_segmentsOnLabelmap = [2, 3], slice_pixelData = [2, 0, 3, 0],
            slice_rows = 2, slice_columns = 2 \<rparr>] \<rparr>"

text \<open>The same segmentation over slices without any nonzero pixel.\<close>

definition demo_blank_services :: services where
  "demo_blank_services = demo_services\<lparr> cache_getImage := (\<lambda>i. Some demo_blank) \<rparr>"

definition demo_blank_labelmap3D :: labelmap3D where
  "demo_blank_labelmap3D =
     \<lparr> segmentsOnLabelmap = [],
       metadata = metadata demo_labelmap3D,
       labelmaps2D =
         [\<lparr> slice_segmentsOnLabelmap = [], slice_pixelData = [0, 0, 0, 0],
            slice_rows = 2, slice_columns = 2 \<rparr>,
          \<lparr> slice_segmentsOnLabelmap = [], slice_pixelData = [0, 0, 0, 0],
            slice_rows = 2, slice_columns = 2 \<rparr>] \<rparr>"

section \<open>Facts about the model\<close>

subsection \<open>The set model and the scan\<close>

lemma set_set_add: "set (set_add s v) = insert v (set s)"
  by (auto simp: set_add_def)

lemma distinct_set_add: "distinct s \<Longrightarrow> distinct (set_add s v)"
  by (simp add: set_add_def)

lemma set_set_from: "set (set_from s vs) = set s \<union> set vs"
  by (induction vs arbitrary: s) (auto simp: set_set_add)

lemma distinct_set_from: "distinct s \<Longrightarrow> distinct (set_from s vs)"
  by (induction vs arbitrary: s) (simp_all add: distinct_set_add)

lemma set_scanPixels: "set (scanPixels s px) = set s \<union> {v \<in> set px. v \<noteq> 0}"
  by (induction px arbitrary: s) (auto simp: set_set_add)

lemma distinct_scanPixels: "distinct s \<Longrightarrow> distinct (scanPixels s px)"
  by (induction px arbitrary: s) (simp_all add: distinct_set_add)

lemma sliceLoop_map: "sliceLoop acc imgs = acc @ map sliceLabelmap imgs"
  by (induction imgs arbitrary: acc) simp_all

subsection \<open>What generateSegmentation builds\<close>

lemma those_eq_Some: "those xs = Some ys \<longleftrightarrow> xs = map Some ys"
  by (induction xs arbitrary: ys) (auto split: option.splits)

lemma scanPixels_fold:
  "scanPixels s px = fold (\<lambda>v s. if v \<noteq> 0 then set_add s v else s) px s"
  by (induction px arbitrary: s) simp_all

lemma buildLabelmap3D_Inr:
  assumes "buildLabelmap3D env sid = Inr (refs, lm)"
  shows "\<exists>seg ids imgs s md.
           cst_getSegmentation env sid = Some seg \<and> labelmap_imageIds seg = Some ids \<and>
           map (cache_getImage env) ids = map Some imgs \<and>
           getSegmentation env sid = Some s \<and>
           attachMetadata env sid (getRepresentationsForSegmentation env sid) (segments s) []
             = Inr md \<and>
           refs = map (\<lambda>image. cache_getImage env (referencedImageId image)) imgs \<and>
           segmentsOnLabelmap lm = volumeSegments (map sliceLabelmap imgs) \<and>
           metadata lm = md \<and>
           labelmaps2D lm = map sliceLabelmap imgs"
  using assms
  by (auto simp: buildLabelmap3D_def Let_def sliceLoop_map those_eq_Some
           split: option.splits sum.splits)

lemma generateSegmentation_Inr:
  assumes "generateSegmentation env sid opts = ([AdapterGenerateSegmentation refs lm opts], r)"
  shows "\<exists>seg ids imgs s md.
           cst_getSegmentation env sid = Some seg \<and> labelmap_imageIds seg = Some ids \<and>
           map (cache_getImage env) ids = map Some imgs \<and>
           getSegmentation env sid = Some s \<and>
           attachMetadata env sid (getRepresentationsForSegmentation env sid) (segments s) []
             = Inr md \<and>
           refs = map (\<lambda>image. cache_getImage env (referencedImageId image)) imgs \<and>
           segmentsOnLabelmap lm = volumeSegments (map sliceLabelmap imgs) \<and>
           metadata lm = md \<and>
           labelmaps2D lm = map sliceLabelmap imgs"
proof -
  from assms have "buildLabelmap3D env sid = Inr (refs, lm)"
    by (auto simp: generateSegmentation_def split: sum.splits)
  then show ?thesis by (rule buildLabelmap3D_Inr)
qed

lemma sliceLabelmap_segments:
  "set (slice_segmentsOnLabelmap (sliceLabelmap img)) = {v \<in> set (pixelData img). v \<noteq> 0}"
  "distinct (slice_segmentsOnLabelmap (sliceLabelmap img))"
  "slice_pixelData (sliceLabelmap img) = pixelData img"
  by (simp_all add: sliceLabelmap_def set_scanPixels distinct_scanPixels)

lemma set_volumeSegments:
  "set (volumeSegments lms) = (\<Union>l \<in> set lms. set (slice_segmentsOnLabelmap l))"
  by (simp add: volumeSegments_def set_set_from)

lemma distinct_volumeSegments: "distinct (volumeSegments lms)"
  by (simp add: volumeSegments_def distinct_set_from)

lemma attachMetadata_entries:
  assumes "attachMetadata env sid reps es md = Inr md'" "distinct (map fst es)"
  shows "(\<forall>key seg. (key, Some seg) \<in> set es \<longrightarrow>
            (\<exists>rep rest color. reps = rep # rest \<and>
               getSegmentColor env (rep_viewportId rep) sid (segmentIndex seg) = Some color \<and>
               map_of md' key = Some (segmentMetadataOf env key seg color))) \<and>
         (\<forall>k. k \<notin> fst ` set es \<longrightarrow> map_of md' k = map_of md k)"
  using assms
proof (induction env sid reps es md rule: attachMetadata.induct)
  case (1 env sid reps md)
  then show ?case by simp
next
  case (2 env sid reps key es md)
  then show ?case by (auto simp: image_iff)
next
  case (3 env sid reps key seg es md)
  from "3.prems" obtain rep rest color where
    r: "reps = rep # rest"
       "getSegmentColor env (rep_viewportId rep) sid (segmentIndex seg) = Some color"
       "attachMetadata env sid reps es (AList.update key (segmentMetadataOf env key seg color) md)
          = Inr md'"
    by (auto split: list.splits option.splits)
  from "3.prems" have d: "distinct (map fst es)" "key \<notin> fst ` set es" by auto
  note ih0 = "3.IH" [OF r(1) r(2) r(3) d(1)]
  note ih = ih0 [THEN conjunct1, rule_format]
  note ih2 = ih0 [THEN conjunct2, rule_format]
  show ?case
  proof (intro conjI allI impI)
    fix k s assume m: "(k, Some s) \<in> set ((key, Some seg) # es)"
    show "\<exists>rep rest color. reps = rep # rest \<and>
               getSegmentColor env (rep_viewportId rep) sid (segmentIndex s) = Some color \<and>
               map_of md' k = Some (segmentMetadataOf env k s color)"
    proof (cases "(k, Some s) \<in> set es")
      case True
      from ih [OF this] show ?thesis .
    next
      case False
      with m have e: "k = key" "s = seg" by auto
      from ih2 [OF d(2)] have "map_of md' key
          = map_of (AList.update key (segmentMetadataOf env key seg color) md) key" .
      then have "map_of md' key = Some (segmentMetadataOf env key seg color)"
        by (simp add: update_conv')
      with r e show ?thesis by blast
    qed
  next
    fix k assume "k \<notin> fst ` set ((key, Some seg) # es)"
    then have n: "k \<noteq> key" "k \<notin> fst ` set es" by auto
    from ih2 [OF n(2)]
    have "map_of md' k = map_of (AList.update key (segmentMetadataOf env key seg color) md) k" .
    with n show "map_of md' k = map_of md k" by (simp add: update_conv')
  qed
qed

subsection \<open>The example configuration, evaluated\<close>

lemma demo_build:
  "buildLabelmap3D demo_services ''seg1'' = Inr ([None, None], demo_labelmap3D)"
  by (simp add: buildLabelmap3D_def demo_services_def demo_image1_def demo_image2_def
        demo_segmentation_def demo_segment_def sliceLabelmap_def set_add_def volumeSegments_def
        segmentMetadataOf_def js_or_def Math_round_def demo_labelmap3D_def)

lemma demo_blank_build:
  "buildLabelmap3D demo_blank_services ''seg1'' =
     Inr ([Some demo_blank, Some demo_blank], demo_blank_labelmap3D)"
  by (simp add: buildLabelmap3D_def demo_blank_services_def demo_services_def demo_blank_def
        demo_segmentation_def demo_segment_def sliceLabelmap_def set_add_def volumeSegments_def
        segmentMetadataOf_def js_or_def Math_round_def demo_labelmap3D_def
        demo_blank_labelmap3D_def)

lemma demo_generate:
  "generateSegmentation demo_services ''seg1'' default_options =
     ([AdapterGenerateSegmentation [None, None] demo_labelmap3D default_options],
      Inr (Some \<lparr> dataset = Some demo_dataset, gen_metadata = None \<rparr>))"
  by (simp add: generateSegmentation_def demo_build) (simp add: demo_services_def)

lemma demo_blank_generate:
  "generateSegmentation demo_blank_services ''seg1'' default_options =
     ([AdapterGenerateSegmentation [Some demo_blank, Some demo_blank] demo_blank_labelmap3D
         default_options],
      Inr (Some \<lparr> dataset = Some demo_dataset, gen_metadata = None \<rparr>))"
  by (simp add: generateSegmentation_def demo_blank_build)
     (simp add: demo_blank_services_def demo_services_def)

subsection \<open>The actions\<close>

lemma run_calls_ok: "run_calls f cs = Inr () \<longleftrightarrow> list_all (\<lambda>c. f c = Inr ()) cs"
  by (induction cs) (auto split: sum.splits)

lemma run_calls_Inr: "run_calls f cs = Inr u \<longleftrightarrow> list_all (\<lambda>c. f c = Inr ()) cs"
  using run_calls_ok [of f cs] by simp

lemma run_calls_Inl: "run_calls f cs = Inl e \<Longrightarrow> \<not> list_all (\<lambda>c. f c = Inr ()) cs"
  using run_calls_ok [of f cs] by simp

lemma pdfAssemble_Inr:
  "pdfAssemble env cv s g = Inr doc \<longleftrightarrow>
     (\<exists>pngImage generatedSegmentation.
        toDataURL cv = Inr pngImage \<and> g = Some generatedSegmentation \<and>
        list_all (\<lambda>c. pdf_lib env c = Inr ())
          (pdfPageCalls cv @ pdfImageCalls pngImage cv
             @ pdfTextCalls pngImage cv s (metadataOf generatedSegmentation)) \<and>
        doc = pdfDocument pngImage cv s (metadataOf generatedSegmentation))"
  by (auto simp: pdfAssemble_def Let_def run_calls_Inr split: sum.splits option.splits
           dest: run_calls_Inl)

lemma linkDownload_Inr:
  "snd (linkDownload env download doc) = Inr () \<longleftrightarrow> list_all (\<lambda>c. dom_api env c = Inr ()) linkCalls"
  by (auto simp: linkDownload_def linkCalls_def split: sum.splits)

lemma linkDownload_ok:
  "list_all (\<lambda>c. dom_api env c = Inr ()) linkCalls \<Longrightarrow>
   linkDownload env download doc = ([DownloadLink download doc, RevokeObjectURLAfter 100], Inr ())"
  by (simp add: linkDownload_def linkCalls_def)

lemma pdf_text_empty:
  "textContent s [] =
     ''Segmentation: '' @ js_or (label s) ''Unnamed Segmentation'' @ [CHR 0x0A] @ ''Segments: 0''
       @ [CHR 0x0A] @ ''No segment metadata available''"
  by (simp add: textContent_def segmentInfo_def)

lemma downloadSegmentationPdf_no_capture:
  assumes "targetViewportElement env vid = None \<or>
           (\<exists>el e. targetViewportElement env vid = Some el \<and> html2canvas env el = Inl e)"
  shows "\<exists>t err.
           downloadSegmentationPdf env sid vid = (t, Inl err) \<and> list_all is_log t \<and>
           (getSegmentation env sid \<noteq> None \<and> hasLabelmapImageIds env sid \<longrightarrow>
              t = [ConsoleError ''Error generating segmentation PDF:'' err] \<and>
              (targetViewportElement env vid = None \<longrightarrow>
                 err = Error ''Viewport element not found'') \<and>
              (\<forall>el. targetViewportElement env vid = Some el \<longrightarrow> html2canvas env el = Inl err))"
  using assms
  by (auto simp: downloadSegmentationPdf_def downloadSegmentationPdf_try_def
           split: option.splits)

lemma downloadSegmentationPdf_completes:
  "snd (downloadSegmentationPdf env sid vid) = Inr () \<longleftrightarrow>
     (\<exists>s el cv pngImage md.
        getSegmentation env sid = Some s \<and> hasLabelmapImageIds env sid \<and>
        targetViewportElement env vid = Some el \<and> html2canvas env el = Inr cv \<and>
        (case snd (generateSegmentation env sid default_options) of
           Inl e \<Rightarrow> md = []
         | Inr None \<Rightarrow> False
         | Inr (Some generatedSegmentation) \<Rightarrow> md = metadataOf generatedSegmentation) \<and>
        toDataURL cv = Inr pngImage \<and>
        list_all (\<lambda>c. pdf_lib env c = Inr ())
          (pdfPageCalls cv @ pdfImageCalls pngImage cv @ pdfTextCalls pngImage cv s md) \<and>
        list_all (\<lambda>c. dom_api env c = Inr ()) linkCalls)"
proof (cases "getSegmentation env sid")
  case None
  then show ?thesis
    by (simp add: downloadSegmentationPdf_def downloadSegmentationPdf_try_def)
next
  case (Some s)
  show ?thesis
  proof (cases "hasLabelmapImageIds env sid")
    case False
    with Some show ?thesis
      by (simp add: downloadSegmentationPdf_def downloadSegmentationPdf_try_def)
  next
    case True
    show ?thesis
    proof (cases "targetViewportElement env vid")
      case None
      with Some True show ?thesis
        by (simp add: downloadSegmentationPdf_def downloadSegmentationPdf_try_def)
    next
      case el: (Some el)
      show ?thesis
      proof (cases "html2canvas env el")
        case (Inl e)
        with Some True el show ?thesis
          by (simp add: downloadSegmentationPdf_def downloadSegmentationPdf_try_def)
      next
        case (Inr cv)
        let ?name = "js_or (label s) ''segmentation'' @ ''.pdf''"
        obtain t r where gs: "generateSegmentation env sid default_options = (t, r)"
          by (cases "generateSegmentation env sid default_options")
        have l: "snd (downloadSegmentationPdf env sid vid) = Inr () \<longleftrightarrow>
                 (\<exists>doc. pdfAssemble env cv s (snd (pdfGenerate (t, r))) = Inr doc \<and>
                    list_all (\<lambda>c. dom_api env c = Inr ()) linkCalls)"
        proof (cases "pdfAssemble env cv s (snd (pdfGenerate (t, r)))")
          case (Inl e)
          with Some True el Inr gs show ?thesis
            by (simp add: downloadSegmentationPdf_def downloadSegmentationPdf_try_def
                  case_prod_beta)
        next
          case doc: (Inr doc)
          have "snd (downloadSegmentationPdf env sid vid) = snd (linkDownload env ?name doc)"
            using Some True el Inr gs doc
            by (simp add: downloadSegmentationPdf_def downloadSegmentationPdf_try_def
                  case_prod_beta split: sum.splits)
          with doc show ?thesis by (simp add: linkDownload_Inr)
        qed
        show ?thesis
        proof (cases r)
          case (Inl e)
          then have "snd (pdfGenerate (t, r)) = Some \<lparr> dataset = None, gen_metadata = Some [] \<rparr>"
            by (simp add: pdfGenerate_def)
          with Some True el Inr gs Inl show ?thesis
            unfolding l pdfAssemble_Inr by (auto simp: metadataOf_def)
        next
          case r: (Inr v)
          then have v: "snd (pdfGenerate (t, r)) = v"
            by (simp add: pdfGenerate_def)
          show ?thesis
          proof (cases v)
            case None
            with Some True el Inr gs r v show ?thesis
              unfolding l pdfAssemble_Inr by simp
          next
            case gen: (Some gen)
            with Some True el Inr gs r v show ?thesis
              unfolding l pdfAssemble_Inr by auto
          qed
        qed
      qed
    qed
  qed
qed

lemma setBrushSize_group_all:
  "SetBrushSizeForToolGroup g b' None \<in> set (setBrushSize_group b tn gid) \<Longrightarrow> tn = Some []"
  by (auto simp: setBrushSize_group_def split: if_splits option.splits)

lemma setBrushSize_groups_empty_names:
  "concat (map (setBrushSize_group b (Some [])) gids)
     = map (\<lambda>g. SetBrushSizeForToolGroup g b None) gids"
  by (induction gids) (simp_all add: setBrushSize_group_def)

subsection \<open>The example configuration and the store action\<close>




subsection \<open>The example configuration and the PDF action\<close>

lemma demo_uncached_setting:
  "getSegmentation demo_uncached_services ''seg1'' = Some demo_segmentation"
  "hasLabelmapImageIds demo_uncached_services ''seg1''"
  "targetViewportElement demo_uncached_services None = Some ''div-vp1''"
  "html2canvas demo_uncached_services ''div-vp1'' = Inr demo_canvas"
  "generateSegmentation demo_uncached_services ''seg1'' default_options = ([], Inl TypeError)"
  "toDataURL demo_canvas = Inr demo_png"
  "list_all (\<lambda>c. dom_api demo_uncached_services c = Inr ()) linkCalls"
  by (simp_all add: demo_uncached_services_def demo_services_def hasLabelmapImageIds_def
        targetViewportElement_def js_or_opt_def template_def generateSegmentation_def
        buildLabelmap3D_def demo_canvas_def linkCalls_def)

lemma demo_uncached_pdf_calls:
  "list_all (\<lambda>c. pdf_lib demo_uncached_services c = Inr ())
     (pdfPageCalls demo_canvas @ pdfImageCalls demo_png demo_canvas
        @ pdfTextCalls demo_png demo_canvas demo_segmentation [])"
  by (simp add: demo_uncached_services_def demo_services_def demo_pdf_lib_def pdfPageCalls_def
        pdfImageCalls_def pdfTextCalls_def pageImage_def pageRectangle_def pageText_def
        textContent_def segmentInfo_def demo_segmentation_def js_or_def)

section \<open>The claims\<close>

text \<open>
  C1. When \<^verbatim>\<open>generateSegmentation\<close> reaches the adapter, every slice of the label
  map it hands over carries the pixel buffer of the corresponding segmentation image, and
  its \<^verbatim>\<open>segmentsOnLabelmap\<close> lists, without repetition, exactly the nonzero values
  of that buffer: every nonzero value of the buffer is listed, zero is not, and nothing
  else is. The list is the result of one left-to-right pass over the buffer.
\<close>

theorem generateSegmentation_slice_segments:
  assumes "generateSegmentation env sid opts = ([AdapterGenerateSegmentation refs lm opts], r)"
  shows "\<exists>seg ids imgs.
           cst_getSegmentation env sid = Some seg \<and> labelmap_imageIds seg = Some ids \<and>
           map (cache_getImage env) ids = map Some imgs \<and>
           map slice_pixelData (labelmaps2D lm) = map pixelData imgs \<and>
           (\<forall>l \<in> set (labelmaps2D lm).
              set (slice_segmentsOnLabelmap l) = {v \<in> set (slice_pixelData l). v \<noteq> 0} \<and>
              distinct (slice_segmentsOnLabelmap l) \<and>
              slice_segmentsOnLabelmap l
                = fold (\<lambda>v s. if v \<noteq> 0 then set_add s v else s) (slice_pixelData l) [])"
proof -
  from generateSegmentation_Inr [OF assms] obtain seg ids imgs where
    a: "cst_getSegmentation env sid = Some seg" "labelmap_imageIds seg = Some ids"
       "map (cache_getImage env) ids = map Some imgs"
       "labelmaps2D lm = map sliceLabelmap imgs"
    by blast
  have b: "map slice_pixelData (labelmaps2D lm) = map pixelData imgs"
    by (simp add: a(4) sliceLabelmap_segments)
  have c: "\<forall>l \<in> set (labelmaps2D lm).
              set (slice_segmentsOnLabelmap l) = {v \<in> set (slice_pixelData l). v \<noteq> 0} \<and>
              distinct (slice_segmentsOnLabelmap l) \<and>
              slice_segmentsOnLabelmap l
                = fold (\<lambda>v s. if v \<noteq> 0 then set_add s v else s) (slice_pixelData l) []"
    unfolding a(4)
    by (auto simp: sliceLabelmap_segments) (simp add: sliceLabelmap_def scanPixels_fold)
  from a b c show ?thesis by blast
qed

theorem generateSegmentation_slice_segments_witness:
  "generateSegmentation demo_services ''seg1'' default_options =
     ([AdapterGenerateSegmentation [None, None] demo_labelmap3D default_options],
      Inr (Some \<lparr> dataset = Some demo_dataset, gen_metadata = None \<rparr>)) \<and>
   labelmaps2D demo_labelmap3D ! 1 =
     \<lparr> slice_segmentsOnLabelmap = [2, 3], slice_pixelData = [2, 0, 3, 0],
       slice_rows = 2, slice_columns = 2 \<rparr> \<and>
   set (slice_segmentsOnLabelmap (labelmaps2D demo_labelmap3D ! 1)) =
     {v \<in> set (slice_pixelData (labelmaps2D demo_labelmap3D ! 1)). v \<noteq> 0} \<and>
   distinct (slice_segmentsOnLabelmap (labelmaps2D demo_labelmap3D ! 1))"
proof -
  have m: "labelmaps2D demo_labelmap3D ! 1 \<in> set (labelmaps2D demo_labelmap3D)"
    by (simp add: demo_labelmap3D_def)
  have e: "labelmaps2D demo_labelmap3D ! 1 =
     \<lparr> slice_segmentsOnLabelmap = [2, 3], slice_pixelData = [2, 0, 3, 0],
       slice_rows = 2, slice_columns = 2 \<rparr>"
    by (simp add: demo_labelmap3D_def)
  from generateSegmentation_slice_segments [OF demo_generate] m
  have "set (slice_segmentsOnLabelmap (labelmaps2D demo_labelmap3D ! 1)) =
          {v \<in> set (slice_pixelData (labelmaps2D demo_labelmap3D ! 1)). v \<noteq> 0} \<and>
        distinct (slice_segmentsOnLabelmap (labelmaps2D demo_labelmap3D ! 1))"
    by blast
  with demo_generate e show ?thesis by blast
qed

text \<open>
  C2. The volume-level \<^verbatim>\<open>segmentsOnLabelmap\<close> of the label map handed to the
  adapter is, as a set, the union of the per-slice sets, and it lists no value twice.
  When no slice holds a nonzero pixel it is empty.
\<close>

theorem generateSegmentation_volume_segments:
  assumes "generateSegmentation env sid opts = ([AdapterGenerateSegmentation refs lm opts], r)"
  shows "set (segmentsOnLabelmap lm) = (\<Union>l \<in> set (labelmaps2D lm). set (slice_segmentsOnLabelmap l)) \<and>
         distinct (segmentsOnLabelmap lm) \<and>
         ((\<forall>l \<in> set (labelmaps2D lm). \<forall>v \<in> set (slice_pixelData l). v = 0)
            \<longrightarrow> segmentsOnLabelmap lm = [])"
proof -
  from generateSegmentation_Inr [OF assms] obtain imgs where
    a: "segmentsOnLabelmap lm = volumeSegments (map sliceLabelmap imgs)"
       "labelmaps2D lm = map sliceLabelmap imgs"
    by blast
  have u: "set (segmentsOnLabelmap lm) = (\<Union>l \<in> set (labelmaps2D lm). set (slice_segmentsOnLabelmap l))"
    unfolding a by (rule set_volumeSegments)
  have d: "distinct (segmentsOnLabelmap lm)"
    unfolding a by (rule distinct_volumeSegments)
  have z: "segmentsOnLabelmap lm = []"
    if "\<forall>l \<in> set (labelmaps2D lm). \<forall>v \<in> set (slice_pixelData l). v = 0"
  proof -
    have "set (segmentsOnLabelmap lm) = {}"
      using that unfolding u a(2) by (auto simp: sliceLabelmap_segments)
    then show ?thesis by simp
  qed
  from u d z show ?thesis by blast
qed

theorem generateSegmentation_volume_segments_witness:
  "generateSegmentation demo_blank_services ''seg1'' default_options =
     ([AdapterGenerateSegmentation [Some demo_blank, Some demo_blank] demo_blank_labelmap3D
         default_options],
      Inr (Some \<lparr> dataset = Some demo_dataset, gen_metadata = None \<rparr>)) \<and>
   list_all (\<lambda>l. list_all (\<lambda>v. v = 0) (slice_pixelData l)) (labelmaps2D demo_blank_labelmap3D) \<and>
   segmentsOnLabelmap demo_blank_labelmap3D = [] \<and>
   generateSegmentation demo_services ''seg1'' default_options =
     ([AdapterGenerateSegmentation [None, None] demo_labelmap3D default_options],
      Inr (Some \<lparr> dataset = Some demo_dataset, gen_metadata = None \<rparr>)) \<and>
   set (segmentsOnLabelmap demo_labelmap3D) =
     (\<Union>l \<in> set (labelmaps2D demo_labelmap3D). set (slice_segmentsOnLabelmap l)) \<and>
   segmentsOnLabelmap demo_labelmap3D = [1, 2, 3]"
proof -
  have z: "list_all (\<lambda>l. list_all (\<lambda>v. v = 0) (slice_pixelData l))
             (labelmaps2D demo_blank_labelmap3D)"
    by (simp add: demo_blank_labelmap3D_def)
  then have z': "\<forall>l \<in> set (labelmaps2D demo_blank_labelmap3D). \<forall>v \<in> set (slice_pixelData l). v = 0"
    by (simp add: list_all_iff)
  from generateSegmentation_volume_segments [OF demo_blank_generate] z'
  have e: "segmentsOnLabelmap demo_blank_labelmap3D = []" by blast
  from generateSegmentation_volume_segments [OF demo_generate]
  have u: "set (segmentsOnLabelmap demo_labelmap3D) =
     (\<Union>l \<in> set (labelmaps2D demo_labelmap3D). set (slice_segmentsOnLabelmap l))" by blast
  have v: "segmentsOnLabelmap demo_labelmap3D = [1, 2, 3]"
    by (simp add: demo_labelmap3D_def)
  from demo_blank_generate demo_generate z e u v show ?thesis by blast
qed

text \<open>
  C3, as amended. When the identifier is known neither to the cornerstone tools state
  nor to the segmentation service, \<^verbatim>\<open>generateSegmentation\<close> and
  \<^verbatim>\<open>downloadSegmentation\<close> throw a TypeError, by reading a property of the undefined
  segmentation, and \<^verbatim>\<open>downloadSegmentationPdf\<close> throws by its own check; none of them
  downloads anything. \<^verbatim>\<open>downloadRTSS\<close> does not check the identifier: it calls the
  RTSS adapter with the undefined segmentation, outside its \<^verbatim>\<open>try\<close>, and it throws
  exactly when that call throws, with the error of the adapter; when the adapter returns,
  the action returns normally.
\<close>

theorem unknown_segmentation_throws:
  assumes "cst_getSegmentation env sid = None"
    and "getSegmentation env sid = None"
  shows "generateSegmentation env sid opts = ([], Inl TypeError) \<and>
         downloadSegmentation env sid = ([], Inl TypeError) \<and>
         downloadSegmentationPdf env sid vid =
           ([ConsoleError ''Error generating segmentation PDF:'' (Error ''Segmentation not found'')],
            Inl (Error ''Segmentation not found'')) \<and>
         AdapterGenerateRTSS None \<in> set (fst (downloadRTSS env sid)) \<and>
         snd (downloadRTSS env sid) =
           (case generateRTSSFromSegmentations env None of
              Inl e \<Rightarrow> Inl e
            | Inr RTSS \<Rightarrow> Inr ())"
proof -
  have b: "buildLabelmap3D env sid = Inl TypeError"
    by (simp add: buildLabelmap3D_def assms(1))
  have g: "\<And>opts. generateSegmentation env sid opts = ([], Inl TypeError)"
    by (simp add: generateSegmentation_def b)
  have d: "downloadSegmentation env sid = ([], Inl TypeError)"
    by (simp add: downloadSegmentation_def g)
  have p: "downloadSegmentationPdf env sid vid =
           ([ConsoleError ''Error generating segmentation PDF:'' (Error ''Segmentation not found'')],
            Inl (Error ''Segmentation not found''))"
    by (simp add: downloadSegmentationPdf_def downloadSegmentationPdf_try_def assms(2))
  have r: "AdapterGenerateRTSS None \<in> set (fst (downloadRTSS env sid))"
    by (simp add: downloadRTSS_def assms(2) split: sum.splits)
  have q: "snd (downloadRTSS env sid) =
           (case generateRTSSFromSegmentations env None of
              Inl e \<Rightarrow> Inl e
            | Inr RTSS \<Rightarrow> Inr ())"
    by (simp add: downloadRTSS_def assms(2) split: sum.splits)
  from g d p r q show ?thesis by simp
qed

theorem unknown_segmentation_throws_witness:
  "cst_getSegmentation demo_services ''nope'' = None \<and>
   getSegmentation demo_services ''nope'' = None \<and>
   generateSegmentation demo_services ''nope'' default_options = ([], Inl TypeError) \<and>
   downloadSegmentation demo_services ''nope'' = ([], Inl TypeError) \<and>
   downloadSegmentationPdf demo_services ''nope'' None =
     ([ConsoleError ''Error generating segmentation PDF:'' (Error ''Segmentation not found'')],
      Inl (Error ''Segmentation not found'')) \<and>
   generateRTSSFromSegmentations demo_services None = Inl TypeError \<and>
   snd (downloadRTSS demo_services ''nope'') = Inl TypeError"
proof -
  have a: "cst_getSegmentation demo_services ''nope'' = None"
    and b: "getSegmentation demo_services ''nope'' = None"
    and c: "generateRTSSFromSegmentations demo_services None = Inl TypeError"
    by (simp_all add: demo_services_def)
  from unknown_segmentation_throws [OF a b, of default_options None] a b c show ?thesis by simp
qed

text \<open>
  C3 as stated, that every download action throws on an unknown identifier, fails for
  \<^verbatim>\<open>downloadRTSS\<close>: with an adapter that returns for an undefined segmentation the
  action returns normally and navigates to the blob.
\<close>

theorem downloadRTSS_unknown_segmentation_completes:
  "cst_getSegmentation demo_lenient_services ''nope'' = None \<and>
   getSegmentation demo_lenient_services ''nope'' = None \<and>
   downloadRTSS demo_lenient_services ''nope'' =
     ([AdapterGenerateRTSS None, LocationAssign ''blob:RTSS''], Inr ())"
  by (simp add: downloadRTSS_def demo_lenient_services_def demo_services_def)

text \<open>
  C4, as amended. When the segmentation is found and has image ids, the viewport
  element is resolved, the capture succeeds, \<^verbatim>\<open>generateSegmentation\<close> throws, and every
  call of the PDF library and of the DOM that builds and downloads the document returns,
  then \<^verbatim>\<open>downloadSegmentationPdf\<close> logs the error of the generation and completes: it
  downloads a document of one page, of the size of the canvas, on which the captured
  image is drawn, and whose text ends with the line \<open>No segment metadata available\<close>
  after the line \<open>Segments: 0\<close>.
\<close>

theorem downloadSegmentationPdf_tolerates_generation_failure:
  assumes "getSegmentation env sid = Some s"
    and "hasLabelmapImageIds env sid"
    and "targetViewportElement env vid = Some el"
    and "html2canvas env el = Inr cv"
    and "generateSegmentation env sid default_options = (t, Inl e)"
    and "toDataURL cv = Inr pngImage"
    and "list_all (\<lambda>c. pdf_lib env c = Inr ())
           (pdfPageCalls cv @ pdfImageCalls pngImage cv @ pdfTextCalls pngImage cv s [])"
    and "list_all (\<lambda>c. dom_api env c = Inr ()) linkCalls"
  shows "\<exists>txt.
           downloadSegmentationPdf env sid vid =
             (t @ [ConsoleError ''Error generating segmentation:'' e,
                   DownloadLink (js_or (label s) ''segmentation'' @ ''.pdf'')
                     [\<lparr> page_width = width cv, page_height = height cv,
                        page_ops =
                          [DrawImage pngImage 0 0 (width cv) (height cv),
                           DrawRectangle 30 (height cv - 50) 400 40 (0, 0, 0) (7 / 10),
                           DrawText txt 50 (height cv - 50) 12 (1, 1, 1) 15] \<rparr>],
                   RevokeObjectURLAfter 100],
              Inr ()) \<and>
           txt = ''Segmentation: '' @ js_or (label s) ''Unnamed Segmentation'' @ [CHR 0x0A]
                   @ ''Segments: 0'' @ [CHR 0x0A] @ ''No segment metadata available'' \<and>
           suffix ''No segment metadata available'' txt"
proof -
  let ?g = "\<lparr> dataset = None, gen_metadata = Some [] \<rparr>"
  have m: "pdfGenerate (generateSegmentation env sid default_options)
             = (t @ [ConsoleError ''Error generating segmentation:'' e], Some ?g)"
    by (simp add: assms(5) pdfGenerate_def)
  have md: "metadataOf ?g = []"
    by (simp add: metadataOf_def)
  have a: "pdfAssemble env cv s (Some ?g) = Inr (pdfDocument pngImage cv s [])"
    unfolding pdfAssemble_Inr using assms(6,7) by (simp add: md)
  have "downloadSegmentationPdf env sid vid =
             (t @ [ConsoleError ''Error generating segmentation:'' e,
                   DownloadLink (js_or (label s) ''segmentation'' @ ''.pdf'')
                     (pdfDocument pngImage cv s []),
                   RevokeObjectURLAfter 100],
              Inr ())"
    by (simp add: downloadSegmentationPdf_def downloadSegmentationPdf_try_def assms(1-4) m a
          linkDownload_ok [OF assms(8)])
  moreover have "pdfDocument pngImage cv s [] =
       [\<lparr> page_width = width cv, page_height = height cv,
          page_ops =
            [DrawImage pngImage 0 0 (width cv) (height cv),
             DrawRectangle 30 (height cv - 50) 400 40 (0, 0, 0) (7 / 10),
             DrawText (textContent s []) 50 (height cv - 50) 12 (1, 1, 1) 15] \<rparr>]"
    by (simp add: pdfDocument_def pageImage_def pageRectangle_def pageText_def)
  moreover have "suffix ''No segment metadata available'' (textContent s [])"
    unfolding pdf_text_empty suffix_def by (metis append.assoc)
  ultimately show ?thesis
    using pdf_text_empty by auto
qed

theorem downloadSegmentationPdf_tolerates_generation_failure_witness:
  "getSegmentation demo_uncached_services ''seg1'' = Some demo_segmentation \<and>
   hasLabelmapImageIds demo_uncached_services ''seg1'' \<and>
   targetViewportElement demo_uncached_services None = Some ''div-vp1'' \<and>
   html2canvas demo_uncached_services ''div-vp1'' = Inr demo_canvas \<and>
   generateSegmentation demo_uncached_services ''seg1'' default_options = ([], Inl TypeError) \<and>
   downloadSegmentationPdf demo_uncached_services ''seg1'' None =
     ([ConsoleError ''Error generating segmentation:'' TypeError,
       DownloadLink ''Liver.pdf''
         [\<lparr> page_width = 1, page_height = 1,
            page_ops =
              [DrawImage demo_png 0 0 1 1,
               DrawRectangle 30 (- 49) 400 40 (0, 0, 0) (7 / 10),
               DrawText (''Segmentation: Liver'' @ [CHR 0x0A] @ ''Segments: 0'' @ [CHR 0x0A]
                           @ ''No segment metadata available'')
                 50 (- 49) 12 (1, 1, 1) 15] \<rparr>],
       RevokeObjectURLAfter 100],
      Inr ())"
  using downloadSegmentationPdf_tolerates_generation_failure [OF demo_uncached_setting(1-6) demo_uncached_pdf_calls demo_uncached_setting(7)]
    demo_uncached_setting(1-5)
  by (simp add: demo_segmentation_def demo_canvas_def js_or_def)

text \<open>
  C4 as stated, without the condition on the PDF library, fails: the building of the
  document is inside the \<^verbatim>\<open>try\<close> whose \<^verbatim>\<open>catch\<close> throws again. With a label
  that the library cannot encode, the segmentation found, the viewport element resolved,
  the capture successful and the generation throwing, the action throws the error of
  \<^verbatim>\<open>drawText\<close> and downloads nothing.
\<close>

theorem downloadSegmentationPdf_unencodable_label_throws:
  "getSegmentation demo_unencodable_services ''seg1'' = Some demo_unencodable_segmentation \<and>
   hasLabelmapImageIds demo_unencodable_services ''seg1'' \<and>
   targetViewportElement demo_unencodable_services None = Some ''div-vp1'' \<and>
   html2canvas demo_unencodable_services ''div-vp1'' = Inr demo_canvas \<and>
   generateSegmentation demo_unencodable_services ''seg1'' default_options = ([], Inl TypeError) \<and>
   downloadSegmentationPdf demo_unencodable_services ''seg1'' None =
     ([ConsoleError ''Error generating segmentation:'' TypeError,
       ConsoleError ''Error generating segmentation PDF:'' (Error ''WinAnsi cannot encode'')],
      Inl (Error ''WinAnsi cannot encode''))"
proof -
  have a: "getSegmentation demo_unencodable_services ''seg1'' = Some demo_unencodable_segmentation"
    and b: "hasLabelmapImageIds demo_unencodable_services ''seg1''"
    and c: "targetViewportElement demo_unencodable_services None = Some ''div-vp1''"
    and d: "html2canvas demo_unencodable_services ''div-vp1'' = Inr demo_canvas"
    and e: "generateSegmentation demo_unencodable_services ''seg1'' default_options
              = ([], Inl TypeError)"
    by (simp_all add: demo_unencodable_services_def demo_uncached_services_def demo_services_def
          hasLabelmapImageIds_def targetViewportElement_def js_or_opt_def template_def
          generateSegmentation_def buildLabelmap3D_def)
  have f: "pdfAssemble demo_unencodable_services demo_canvas demo_unencodable_segmentation
             (Some \<lparr> dataset = None, gen_metadata = Some [] \<rparr>)
           = Inl (Error ''WinAnsi cannot encode'')"
    by (simp add: pdfAssemble_def demo_unencodable_services_def demo_uncached_services_def
          demo_services_def demo_pdf_lib_def demo_canvas_def pdfPageCalls_def pdfImageCalls_def
          pdfTextCalls_def pageImage_def pageRectangle_def pageText_def metadataOf_def
          textContent_def segmentInfo_def demo_unencodable_segmentation_def
          demo_segmentation_def js_or_def)
  have "downloadSegmentationPdf demo_unencodable_services ''seg1'' None =
     ([ConsoleError ''Error generating segmentation:'' TypeError,
       ConsoleError ''Error generating segmentation PDF:'' (Error ''WinAnsi cannot encode'')],
      Inl (Error ''WinAnsi cannot encode''))"
    by (simp add: downloadSegmentationPdf_def downloadSegmentationPdf_try_def a b c d e f
          pdfGenerate_def)
  with a b c d e show ?thesis by simp
qed

text \<open>
  C5. When the viewport element cannot be resolved, or the capture fails,
  \<^verbatim>\<open>downloadSegmentationPdf\<close> throws, and all it has done is to log to the console:
  no document, no download. When the segmentation was found and had image ids the one
  log line is that of the outer \<^verbatim>\<open>catch\<close>, and the error thrown is
  \<open>Viewport element not found\<close>, or the error of the capture. Moreover the action
  completes exactly when the segmentation is found and has image ids, the viewport
  element is resolved, the capture succeeds, the generation either throws or returns a
  value, and every call of the PDF library and of the DOM returns: the only failure it
  tolerates is a generation that throws.
\<close>

theorem downloadSegmentationPdf_aborts:
  "(targetViewportElement env vid = None \<or>
    (\<exists>el e. targetViewportElement env vid = Some el \<and> html2canvas env el = Inl e)
    \<longrightarrow> (\<exists>t err.
           downloadSegmentationPdf env sid vid = (t, Inl err) \<and> list_all is_log t \<and>
           (getSegmentation env sid \<noteq> None \<and> hasLabelmapImageIds env sid \<longrightarrow>
              t = [ConsoleError ''Error generating segmentation PDF:'' err] \<and>
              (targetViewportElement env vid = None \<longrightarrow>
                 err = Error ''Viewport element not found'') \<and>
              (\<forall>el. targetViewportElement env vid = Some el \<longrightarrow> html2canvas env el = Inl err)))) \<and>
   (snd (downloadSegmentationPdf env sid vid) = Inr () \<longleftrightarrow>
      (\<exists>s el cv pngImage md.
         getSegmentation env sid = Some s \<and> hasLabelmapImageIds env sid \<and>
         targetViewportElement env vid = Some el \<and> html2canvas env el = Inr cv \<and>
         (case snd (generateSegmentation env sid default_options) of
            Inl e \<Rightarrow> md = []
          | Inr None \<Rightarrow> False
          | Inr (Some generatedSegmentation) \<Rightarrow> md = metadataOf generatedSegmentation) \<and>
         toDataURL cv = Inr pngImage \<and>
         list_all (\<lambda>c. pdf_lib env c = Inr ())
           (pdfPageCalls cv @ pdfImageCalls pngImage cv @ pdfTextCalls pngImage cv s md) \<and>
         list_all (\<lambda>c. dom_api env c = Inr ()) linkCalls))"
  using downloadSegmentationPdf_no_capture [of env vid sid]
    downloadSegmentationPdf_completes [of env sid vid]
  by blast

theorem downloadSegmentationPdf_aborts_witness:
  "targetViewportElement demo_services (Some ''vp9'') = None \<and>
   getSegmentation demo_services ''seg1'' \<noteq> None \<and> hasLabelmapImageIds demo_services ''seg1'' \<and>
   downloadSegmentationPdf demo_services ''seg1'' (Some ''vp9'') =
     ([ConsoleError ''Error generating segmentation PDF:'' (Error ''Viewport element not found'')],
      Inl (Error ''Viewport element not found'')) \<and>
   targetViewportElement demo_nocapture_services None = Some ''div-vp1'' \<and>
   html2canvas demo_nocapture_services ''div-vp1'' = Inl (Error ''canvas is tainted'') \<and>
   downloadSegmentationPdf demo_nocapture_services ''seg1'' None =
     ([ConsoleError ''Error generating segmentation PDF:'' (Error ''canvas is tainted'')],
      Inl (Error ''canvas is tainted''))"
proof -
  have a: "targetViewportElement demo_services (Some ''vp9'') = None"
    by (simp add: targetViewportElement_def js_or_opt_def template_def demo_services_def)
  have b: "getSegmentation demo_services ''seg1'' \<noteq> None"
          "hasLabelmapImageIds demo_services ''seg1''"
          "getSegmentation demo_nocapture_services ''seg1'' \<noteq> None"
          "hasLabelmapImageIds demo_nocapture_services ''seg1''"
    by (simp_all add: hasLabelmapImageIds_def demo_nocapture_services_def demo_services_def)
  have c: "targetViewportElement demo_nocapture_services None = Some ''div-vp1''"
    by (simp add: targetViewportElement_def js_or_opt_def template_def
          demo_nocapture_services_def demo_services_def)
  have d: "html2canvas demo_nocapture_services ''div-vp1'' = Inl (Error ''canvas is tainted'')"
    by (simp add: demo_nocapture_services_def demo_services_def)
  from downloadSegmentationPdf_aborts [of demo_services "Some ''vp9''" "''seg1''", THEN conjunct1] a b
  have p: "downloadSegmentationPdf demo_services ''seg1'' (Some ''vp9'') =
     ([ConsoleError ''Error generating segmentation PDF:'' (Error ''Viewport element not found'')],
      Inl (Error ''Viewport element not found''))"
    by auto
  from downloadSegmentationPdf_aborts [of demo_nocapture_services None "''seg1''", THEN conjunct1] b c d
  have q: "downloadSegmentationPdf demo_nocapture_services ''seg1'' None =
     ([ConsoleError ''Error generating segmentation PDF:'' (Error ''canvas is tainted'')],
      Inl (Error ''canvas is tainted''))"
    by auto
  from a b c d p q show ?thesis by simp
qed



text \<open>
  C7. For every present segment of the segmentation (an entry of \<^verbatim>\<open>segments\<close>
  that is not falsy), the label map handed to the adapter has, at the key of the segment,
  a metadata entry with the key as segment number, the label of the segment, its
  algorithm type or \<open>MANUAL\<close>, its algorithm name or \<open>OHIF Brush\<close>, the rounded
  components of the CIE-Lab conversion of the first three components of the display
  colour divided by 255, and the tissue code \<open>T-D0050\<close>, \<open>SRT\<close>, \<open>Tissue\<close> as
  both the category and the type code sequence. JavaScript numbers are real numbers
  here, and the conversion is the library's, whatever it computes.
\<close>

theorem generateSegmentation_segment_metadata:
  assumes "generateSegmentation env sid opts = ([AdapterGenerateSegmentation refs lm opts], r)"
    and "getSegmentation env sid = Some s"
    and "distinct (map fst (segments s))"
    and "(key, Some seg) \<in> set (segments s)"
  shows "\<exists>rep rest color.
           getRepresentationsForSegmentation env sid = rep # rest \<and>
           getSegmentColor env (rep_viewportId rep) sid (segmentIndex seg) = Some color \<and>
           map_of (metadata lm) key =
             Some \<lparr> SegmentNumber = key,
                    SegmentLabel = segment_label seg,
                    SegmentAlgorithmType =
                      (case algorithmType seg of
                         None \<Rightarrow> ''MANUAL'' | Some a \<Rightarrow> if a = [] then ''MANUAL'' else a),
                    SegmentAlgorithmName =
                      (case algorithmName seg of
                         None \<Rightarrow> ''OHIF Brush'' | Some a \<Rightarrow> if a = [] then ''OHIF Brush'' else a),
                    RecommendedDisplayCIELabValue =
                      map (\<lambda>x. \<lfloor>x + 1 / 2\<rfloor>)
                        (rgb2DICOMLAB env (map (\<lambda>value. value / 255) (take 3 color))),
                    SegmentedPropertyCategoryCodeSequence =
                      \<lparr> CodeValue = ''T-D0050'', CodingSchemeDesignator = ''SRT'',
                        CodeMeaning = ''Tissue'' \<rparr>,
                    SegmentedPropertyTypeCodeSequence =
                      \<lparr> CodeValue = ''T-D0050'', CodingSchemeDesignator = ''SRT'',
                        CodeMeaning = ''Tissue'' \<rparr> \<rparr>"
proof -
  from generateSegmentation_Inr [OF assms(1)] assms(2) have
    "attachMetadata env sid (getRepresentationsForSegmentation env sid) (segments s) []
       = Inr (metadata lm)"
    by auto
  from attachMetadata_entries [OF this assms(3)] assms(4) obtain rep rest color where
    "getRepresentationsForSegmentation env sid = rep # rest"
    "getSegmentColor env (rep_viewportId rep) sid (segmentIndex seg) = Some color"
    "map_of (metadata lm) key = Some (segmentMetadataOf env key seg color)"
    by blast
  then show ?thesis
    unfolding segmentMetadataOf_def js_or_def tissueCode_def Math_round_def
    by (intro exI conjI) simp_all
qed

theorem generateSegmentation_segment_metadata_witness:
  "generateSegmentation demo_services ''seg1'' default_options =
     ([AdapterGenerateSegmentation [None, None] demo_labelmap3D default_options],
      Inr (Some \<lparr> dataset = Some demo_dataset, gen_metadata = None \<rparr>)) \<and>
   getSegmentation demo_services ''seg1'' = Some demo_segmentation \<and>
   distinct (map fst (segments demo_segmentation)) \<and>
   (''1'', Some demo_segment) \<in> set (segments demo_segmentation) \<and>
   map_of (metadata demo_labelmap3D) ''1'' =
     Some \<lparr> SegmentNumber = ''1'', SegmentLabel = ''Lesion'',
            SegmentAlgorithmType = ''MANUAL'', SegmentAlgorithmName = ''Threshold'',
            RecommendedDisplayCIELabValue = [100, 20, 0],
            SegmentedPropertyCategoryCodeSequence =
              \<lparr> CodeValue = ''T-D0050'', CodingSchemeDesignator = ''SRT'',
                CodeMeaning = ''Tissue'' \<rparr>,
            SegmentedPropertyTypeCodeSequence =
              \<lparr> CodeValue = ''T-D0050'', CodingSchemeDesignator = ''SRT'',
                CodeMeaning = ''Tissue'' \<rparr> \<rparr>"
proof -
  have g: "getSegmentation demo_services ''seg1'' = Some demo_segmentation"
    by (simp add: demo_services_def)
  have d: "distinct (map fst (segments demo_segmentation))"
    by (simp add: demo_segmentation_def)
  have m: "(''1'', Some demo_segment) \<in> set (segments demo_segmentation)"
    by (simp add: demo_segmentation_def)
  from generateSegmentation_segment_metadata [OF demo_generate g d m] g d m demo_generate
  show ?thesis
    by (auto simp: demo_services_def demo_segment_def)
qed

text \<open>
  C8. With an empty array of tool names \<^verbatim>\<open>setBrushSize\<close> calls the utility once per
  tool group without a tool name (the size then applies to every tool of the group);
  with the tool names omitted it makes no call at all; a call without a tool name is
  made only when the tool names are the empty array. Without tool groups neither
  \<^verbatim>\<open>setBrushSize\<close> nor \<^verbatim>\<open>setThresholdRange\<close> does anything.
\<close>

theorem setBrushSize_empty_toolNames:
  "(\<forall>gids. getToolGroupIds env = Some gids \<longrightarrow>
      setBrushSize env b (Some []) = (map (\<lambda>g. SetBrushSizeForToolGroup g b None) gids, Inr ())) \<and>
   setBrushSize env b None = ([], Inr ()) \<and>
   (\<forall>g b' tn. SetBrushSizeForToolGroup g b' None \<in> set (fst (setBrushSize env b tn))
      \<longrightarrow> tn = Some []) \<and>
   (getToolGroupIds env = None \<or> getToolGroupIds env = Some []
      \<longrightarrow> setBrushSize env b tn = ([], Inr ()) \<and> setThresholdRange env r tn' = ([], Inr ()))"
proof (intro conjI allI impI)
  fix gids assume "getToolGroupIds env = Some gids"
  then show "setBrushSize env b (Some []) = (map (\<lambda>g. SetBrushSizeForToolGroup g b None) gids, Inr ())"
    by (simp add: setBrushSize_def setBrushSize_groups_empty_names)
next
  show "setBrushSize env b None = ([], Inr ())"
    by (simp add: setBrushSize_def setBrushSize_group_def split: option.splits)
next
  fix g b' tn
  assume "SetBrushSizeForToolGroup g b' None \<in> set (fst (setBrushSize env b tn))"
  then show "tn = Some []"
    by (auto simp: setBrushSize_def split: option.splits dest: setBrushSize_group_all)
next
  assume "getToolGroupIds env = None \<or> getToolGroupIds env = Some []"
  then show "setBrushSize env b tn = ([], Inr ())"
    by (auto simp: setBrushSize_def)
next
  assume "getToolGroupIds env = None \<or> getToolGroupIds env = Some []"
  then show "setThresholdRange env r tn' = ([], Inr ())"
    by (auto simp: setThresholdRange_def)
qed

theorem setBrushSize_empty_toolNames_witness:
  "getToolGroupIds demo_services = Some [''default'', ''mpr''] \<and>
   setBrushSize demo_services 5 (Some []) =
     ([SetBrushSizeForToolGroup ''default'' 5 None, SetBrushSizeForToolGroup ''mpr'' 5 None], Inr ()) \<and>
   setBrushSize demo_services 5 None = ([], Inr ()) \<and>
   SetBrushSizeForToolGroup ''mpr'' 5 None \<in> set (fst (setBrushSize demo_services 5 (Some []))) \<and>
   getToolGroupIds demo_nogroups_services = Some [] \<and>
   setBrushSize demo_nogroups_services 5 (Some [''CircularBrush'']) = ([], Inr ()) \<and>
   setThresholdRange demo_nogroups_services (100, 200) None = ([], Inr ())"
proof -
  have a: "getToolGroupIds demo_services = Some [''default'', ''mpr'']"
    and b: "getToolGroupIds demo_nogroups_services = Some []"
    by (simp_all add: demo_nogroups_services_def demo_services_def)
  note c = setBrushSize_empty_toolNames [of demo_services 5, THEN conjunct1, rule_format, OF a]
  note d = setBrushSize_empty_toolNames [of demo_services 5, THEN conjunct2, THEN conjunct1]
  note e = setBrushSize_empty_toolNames [of demo_nogroups_services 5 "Some [''CircularBrush'']" "(100, 200)" None,
               THEN conjunct2, THEN conjunct2, THEN conjunct2, rule_format, OF disjI2 [OF b]]
  from a b c d e show ?thesis by simp
qed

text \<open>
  C9. When the segmentation exists and the dialog answers with anything but the
  create-report action, \<^verbatim>\<open>storeSegmentation\<close> returns undefined without an error;
  apart from the dialog it has called nothing: no generation, no storage, no addition to
  the metadata store.
\<close>

theorem storeSegmentation_not_confirmed:
  assumes "getSegmentation env sid = Some seg"
    and "createReportDialogPrompt env = Inr r"
    and "action r \<noteq> CREATE_REPORT env"
  shows "storeSegmentation env sid dataSource = ([ReportDialogPrompt ''Store Segmentation''], Inr None)"
  using assms by (simp add: storeSegmentation_def)

theorem storeSegmentation_not_confirmed_witness:
  "getSegmentation demo_cancel_services ''seg1'' = Some demo_segmentation \<and>
   createReportDialogPrompt demo_cancel_services =
     Inr \<lparr> prompt_value = None, dataSourceName = None, action = 0 \<rparr> \<and>
   action \<lparr> prompt_value = None, dataSourceName = None, action = 0 \<rparr>
     \<noteq> CREATE_REPORT demo_cancel_services \<and>
   storeSegmentation demo_cancel_services ''seg1'' None =
     ([ReportDialogPrompt ''Store Segmentation''], Inr None)"
proof -
  have a: "getSegmentation demo_cancel_services ''seg1'' = Some demo_segmentation"
    and b: "createReportDialogPrompt demo_cancel_services =
              Inr \<lparr> prompt_value = None, dataSourceName = None, action = 0 \<rparr>"
    and c: "action \<lparr> prompt_value = None, dataSourceName = None, action = 0 \<rparr>
              \<noteq> CREATE_REPORT demo_cancel_services"
    by (simp_all add: demo_cancel_services_def demo_services_def)
  from storeSegmentation_not_confirmed [OF a b c, of None] a b c show ?thesis by simp
qed

text \<open>
  C10. In \<^verbatim>\<open>downloadRTSS\<close>, once the adapter has returned the structure set, an
  error of the serialisation to a blob, or of the navigation to its URL, is logged as a
  warning and not thrown: the action returns normally and no navigation has occurred.
\<close>

theorem downloadRTSS_swallows_errors:
  assumes "generateRTSSFromSegmentations env (getSegmentation env sid) = Inr rtss"
    and "datasetToBlob env rtss = Inl e \<or>
         (\<exists>b. datasetToBlob env rtss = Inr b \<and> location_assign env b = Inl e)"
  shows "downloadRTSS env sid =
           ([AdapterGenerateRTSS (getSegmentation env sid), ConsoleWarn e], Inr ())"
  using assms by (auto simp: downloadRTSS_def)

theorem downloadRTSS_swallows_errors_witness:
  "generateRTSSFromSegmentations demo_noblob_services (getSegmentation demo_noblob_services ''seg1'')
     = Inr ''RTSS'' \<and>
   datasetToBlob demo_noblob_services ''RTSS'' = Inl (Error ''cannot write'') \<and>
   downloadRTSS demo_noblob_services ''seg1'' =
     ([AdapterGenerateRTSS (Some demo_segmentation), ConsoleWarn (Error ''cannot write'')], Inr ()) \<and>
   generateRTSSFromSegmentations demo_nonavigation_services
       (getSegmentation demo_nonavigation_services ''seg1'') = Inr ''RTSS'' \<and>
   datasetToBlob demo_nonavigation_services ''RTSS'' = Inr ''blob:RTSS'' \<and>
   location_assign demo_nonavigation_services ''blob:RTSS'' = Inl (Error ''blocked'') \<and>
   downloadRTSS demo_nonavigation_services ''seg1'' =
     ([AdapterGenerateRTSS (Some demo_segmentation), ConsoleWarn (Error ''blocked'')], Inr ())"
proof -
  have a: "generateRTSSFromSegmentations demo_noblob_services
             (getSegmentation demo_noblob_services ''seg1'') = Inr ''RTSS''"
    and b: "datasetToBlob demo_noblob_services ''RTSS'' = Inl (Error ''cannot write'')"
    and c: "generateRTSSFromSegmentations demo_nonavigation_services
             (getSegmentation demo_nonavigation_services ''seg1'') = Inr ''RTSS''"
    and d: "datasetToBlob demo_nonavigation_services ''RTSS'' = Inr ''blob:RTSS''"
    and e: "location_assign demo_nonavigation_services ''blob:RTSS'' = Inl (Error ''blocked'')"
    and g: "getSegmentation demo_noblob_services ''seg1'' = Some demo_segmentation"
           "getSegmentation demo_nonavigation_services ''seg1'' = Some demo_segmentation"
    by (simp_all add: demo_noblob_services_def demo_nonavigation_services_def demo_services_def)
  from downloadRTSS_swallows_errors [OF a disjI1 [OF b]] g
  have 1: "downloadRTSS demo_noblob_services ''seg1'' =
     ([AdapterGenerateRTSS (Some demo_segmentation), ConsoleWarn (Error ''cannot write'')], Inr ())"
    by simp
  from downloadRTSS_swallows_errors [OF c, of "Error ''blocked''"] d e g
  have 2: "downloadRTSS demo_nonavigation_services ''seg1'' =
     ([AdapterGenerateRTSS (Some demo_segmentation), ConsoleWarn (Error ''blocked'')], Inr ())"
    by simp
  from a b c d e 1 2 show ?thesis by simp
qed

end
